theory Spec2Isabelle
  imports Main
begin

section \<open>The raw storage manager and the growable array of vector.h\<close>

text \<open>
  The development follows \<^verbatim>\<open>src/advanced-vector/vector.h\<close>: the class template
  \<^verbatim>\<open>RawMemory<T>\<close> (an owned block of uninitialised slots) and the class template
  \<^verbatim>\<open>Vector<T>\<close> built on it.

  Modelling decisions.
  \<^item> A slot of a block is \<open>None\<close> while it is raw memory and \<open>Some x\<close> while it holds
    a constructed element \<open>x\<close>. A block is the list of its slots; a pointer into a block is
    the offset from its start. The null pointer is the absent block.
  \<^item> \<^verbatim>\<open>size_t\<close> values are natural numbers. The two places where the source computes
    \<^verbatim>\<open>size_ - 1\<close> on a possibly empty vector are written out: the subtraction wraps to the
    largest \<^verbatim>\<open>size_t\<close>, which no capacity exceeds, so the assertion of
    \<^verbatim>\<open>RawMemory::operator[]\<close> fails. The product \<^verbatim>\<open>n * sizeof(T)\<close> of
    \<^verbatim>\<open>Allocate\<close> is computed modulo \<open>2 ^ 64\<close>, as \<^verbatim>\<open>size_t\<close> arithmetic does, so that
    a large \<open>n\<close> yields a block of fewer than \<open>n\<close> slots, while \<^verbatim>\<open>capacity_\<close> records
    \<open>n\<close>. The doubling \<^verbatim>\<open>size_ * 2\<close> itself is not wrapped: that would need a vector
    of \<open>2 ^ 63\<close> elements.
  \<^item> A failed \<^verbatim>\<open>assert\<close> and undefined behaviour (an access outside the block, a read
    of a raw slot, an invalid iterator range) are the outcome \<open>Undefined\<close>.
  \<^item> An exception of the element type is the outcome \<open>Throws\<close>, which carries the state
    the caller observes once the exception has left the function. Element constructors and
    copy operations may throw; move operations and destructors are taken not to throw, and
    \<^verbatim>\<open>operator new\<close> is taken to succeed for the number of bytes it is asked for.
  \<^item> A function template whose instantiation for an argument pack is ill-formed has no
    behaviour for that pack: its result there is \<open>None\<close>.
  \<^item> Vectors and storage managers that a function receives by reference live in a store, a
    function from references to objects, so that \<^verbatim>\<open>this != &other\<close> is a test on
    references. An element passed by reference is an object of the caller outside the
    vector's block.
  \<^item> Returned references and iterators (\<^verbatim>\<open>return data_[size_ - 1]\<close>,
    \<^verbatim>\<open>return begin() + index\<close>) are not part of the results; an iterator argument
    \<^verbatim>\<open>pos\<close> is the index \<^verbatim>\<open>pos - begin()\<close>.
  \<^item> A data member \<^verbatim>\<open>x_\<close> of the source is the record field \<open>m_x\<close>.
\<close>

subsection \<open>Outcomes\<close>

datatype exc = ElementOperationError

datatype ('r, 's) outcome = Returns 'r | Throws exc 's | Undefined

subsection \<open>The element type\<close>

text \<open>
  \<^verbatim>\<open>Vector<T>\<close> is generic in \<^verbatim>\<open>T\<close>. What the container uses of \<^verbatim>\<open>T\<close> is a
  parameter of the model:
  \<^item> \<open>value_construct\<close>: the outcome of \<^verbatim>\<open>T()\<close>, a value or an exception;
  \<^item> \<open>copy_throws x\<close>: copy-constructing or copy-assigning from an element equal to \<open>x\<close>
    throws; otherwise the copy equals \<open>x\<close>;
  \<^item> \<open>moved_from x\<close>: the state a move leaves in its source \<open>x\<close> (the target receives
    \<open>x\<close>);
  \<^item> the two type traits \<^verbatim>\<open>CopyOrMove\<close> tests;
  \<^item> \<open>sizeof_T\<close>: \<^verbatim>\<open>sizeof(T)\<close>, the number of bytes of one slot.
\<close>

record 'a traits =
  value_construct :: "exc + 'a"
  copy_throws :: "'a \<Rightarrow> bool"
  moved_from :: "'a \<Rightarrow> 'a"
  nothrow_move_constructible :: bool
  copy_constructible :: bool
  sizeof_T :: nat

text \<open>
  The argument pack of \<^verbatim>\<open>EmplaceBack\<close> and \<^verbatim>\<open>Emplace\<close>, with the value category
  that \<^verbatim>\<open>std::forward<Args>\<close> restores: no argument, one \<^verbatim>\<open>T\<close> bound as
  \<^verbatim>\<open>const T&\<close>, as \<^verbatim>\<open>T&\<close> or as \<^verbatim>\<open>T&&\<close>, or any other pack, given by the
  outcome of the constructor it selects. \<open>construct_T\<close> is \<^verbatim>\<open>T(std::forward<Args>(args)...)\<close>:
  it yields the new element and the pack as the call leaves it.
\<close>

datatype 'a ctor_args =
  NoArgs | ConstRef 'a | LvalueRef 'a | RvalueRef 'a | OtherArgs "exc + 'a"

fun construct_T :: "'a traits \<Rightarrow> 'a ctor_args \<Rightarrow> exc + ('a \<times> 'a ctor_args)" where
  "construct_T tr NoArgs =
     (case value_construct tr of Inl e \<Rightarrow> Inl e | Inr d \<Rightarrow> Inr (d, NoArgs))"
| "construct_T tr (ConstRef x) =
     (if copy_throws tr x then Inl ElementOperationError else Inr (x, ConstRef x))"
| "construct_T tr (LvalueRef x) =
     (if copy_throws tr x then Inl ElementOperationError else Inr (x, LvalueRef x))"
| "construct_T tr (RvalueRef x) = Inr (x, RvalueRef (moved_from tr x))"
| "construct_T tr (OtherArgs r) =
     (case r of Inl e \<Rightarrow> Inl e | Inr y \<Rightarrow> Inr (y, OtherArgs r))"

subsection \<open>RawMemory\<close>

type_synonym 'a slot = "'a option"

record 'a RawMemory =
  m_buffer :: "'a slot list option"
  m_capacity :: nat

text \<open>
  \<^verbatim>\<open>Allocate(n)\<close>: \<^verbatim>\<open>n != 0 ? operator new(n * sizeof(T)) : nullptr\<close>. The request is
  the product in \<^verbatim>\<open>size_t\<close>, of 64 bits, that is modulo \<open>2 ^ 64\<close>; the block obtained has room for
  as many whole slots as that many bytes hold. \<open>fits tr n\<close> says that the product for
  \<open>n\<close> slots does not wrap; then the block has \<open>n\<close> slots.
\<close>

definition Allocate :: "'a traits \<Rightarrow> nat \<Rightarrow> 'a slot list option" where
  "Allocate tr n =
     (if n \<noteq> 0
      then Some (replicate (((n * sizeof_T tr) mod 2 ^ 64) div sizeof_T tr) None)
      else None)"

definition fits :: "'a traits \<Rightarrow> nat \<Rightarrow> bool" where
  "fits tr n = (0 < sizeof_T tr \<and> n * sizeof_T tr < 2 ^ 64)"


definition RawMemory_ctor :: "'a traits \<Rightarrow> nat \<Rightarrow> 'a RawMemory" where
  "RawMemory_ctor tr capacity = \<lparr>m_buffer = Allocate tr capacity, m_capacity = capacity\<rparr>"

text \<open>
  \<^verbatim>\<open>RawMemory(RawMemory&& other)\<close>: the new object takes the fields of \<open>other\<close>, then
  \<open>other\<close> is reset. The result is the pair (new object, \<open>other\<close> afterwards).
\<close>

definition RawMemory_move_ctor :: "'a RawMemory \<Rightarrow> 'a RawMemory \<times> 'a RawMemory" where
  "RawMemory_move_ctor other =
     (\<lparr>m_buffer = m_buffer other, m_capacity = m_capacity other\<rparr>,
      other\<lparr>m_buffer := None, m_capacity := 0\<rparr>)"

text \<open>
  \<^verbatim>\<open>RawMemory& operator=(RawMemory&& other)\<close> on a store \<open>h\<close> of storage managers:
  two \<^verbatim>\<open>std::swap\<close> calls on the fields, guarded by \<^verbatim>\<open>this != &other\<close>.
\<close>

definition RawMemory_move_assign ::
  "('r \<Rightarrow> 'a RawMemory) \<Rightarrow> 'r \<Rightarrow> 'r \<Rightarrow> ('r \<Rightarrow> 'a RawMemory)" where
  "RawMemory_move_assign h this other =
     (if this \<noteq> other then
        let h1 = h(this := (h this)\<lparr>m_buffer := m_buffer (h other)\<rparr>,
                   other := (h other)\<lparr>m_buffer := m_buffer (h this)\<rparr>);
            h2 = h1(this := (h1 this)\<lparr>m_capacity := m_capacity (h1 other)\<rparr>,
                    other := (h1 other)\<lparr>m_capacity := m_capacity (h1 this)\<rparr>)
        in h2
      else h)"

text \<open>\<^verbatim>\<open>void Swap(RawMemory& other)\<close>: the same two swaps, without the guard.\<close>

definition RawMemory_Swap ::
  "('r \<Rightarrow> 'a RawMemory) \<Rightarrow> 'r \<Rightarrow> 'r \<Rightarrow> ('r \<Rightarrow> 'a RawMemory)" where
  "RawMemory_Swap h this other =
     (let h1 = h(this := (h this)\<lparr>m_buffer := m_buffer (h other)\<rparr>,
                 other := (h other)\<lparr>m_buffer := m_buffer (h this)\<rparr>);
          h2 = h1(this := (h1 this)\<lparr>m_capacity := m_capacity (h1 other)\<rparr>,
                  other := (h1 other)\<lparr>m_capacity := m_capacity (h1 this)\<rparr>)
      in h2)"

text \<open>
  \<^verbatim>\<open>T* operator+(size_t offset)\<close> asserts \<^verbatim>\<open>offset <= capacity_\<close> and returns the
  pointer, here the offset itself. \<^verbatim>\<open>T& operator[](size_t index)\<close> asserts
  \<^verbatim>\<open>index < capacity_\<close>. \<open>None\<close> is the failed assertion.
\<close>

definition RawMemory_plus :: "'a RawMemory \<Rightarrow> nat \<Rightarrow> nat option" where
  "RawMemory_plus rm offset = (if offset \<le> m_capacity rm then Some offset else None)"

definition RawMemory_index :: "'a RawMemory \<Rightarrow> nat \<Rightarrow> nat option" where
  "RawMemory_index rm index = (if index < m_capacity rm then Some index else None)"

text \<open>
  \<^verbatim>\<open>GetAddress()\<close> returns \<^verbatim>\<open>buffer_\<close>. The block it points to is \<open>slots\<close>; the null
  pointer addresses no slot. \<open>with_slots\<close> stores a block's new contents behind the same
  pointer.
\<close>

definition slots :: "'a RawMemory \<Rightarrow> 'a slot list" where
  "slots rm = (case m_buffer rm of None \<Rightarrow> [] | Some b \<Rightarrow> b)"

definition with_slots :: "'a RawMemory \<Rightarrow> 'a slot list \<Rightarrow> 'a RawMemory" where
  "with_slots rm b = rm\<lparr>m_buffer := (case m_buffer rm of None \<Rightarrow> None | Some _ \<Rightarrow> Some b)\<rparr>"

definition RawMemory_empty :: "'a RawMemory \<Rightarrow> bool" where
  "RawMemory_empty rm = (m_buffer rm = None \<and> m_capacity rm = 0)"

subsection \<open>Slots and the standard algorithms on them\<close>

text \<open>
  Placement \<^verbatim>\<open>new\<close>, a destructor call, a read and an assignment at offset \<open>p\<close> of a
  block. Outside the block each is undefined; destroying, reading or assigning to a raw
  slot is undefined.
\<close>

definition construct_at :: "'a slot list \<Rightarrow> nat \<Rightarrow> 'a \<Rightarrow> 'a slot list option" where
  "construct_at b p x = (if p < length b then Some (b[p := Some x]) else None)"

definition destroy_at :: "'a slot list \<Rightarrow> nat \<Rightarrow> 'a slot list option" where
  "destroy_at b p = (if p < length b \<and> b ! p \<noteq> None then Some (b[p := None]) else None)"

definition read_at :: "'a slot list \<Rightarrow> nat \<Rightarrow> 'a option" where
  "read_at b p = (if p < length b then b ! p else None)"

definition assign_at :: "'a slot list \<Rightarrow> nat \<Rightarrow> 'a \<Rightarrow> 'a slot list option" where
  "assign_at b p x = (if p < length b \<and> b ! p \<noteq> None then Some (b[p := Some x]) else None)"


fun uninitialized_copy_n ::
  "'a traits \<Rightarrow> 'a slot list \<Rightarrow> nat \<Rightarrow> nat \<Rightarrow> 'a slot list \<Rightarrow> nat \<Rightarrow>
   ('a slot list, 'a slot list) outcome" where
  "uninitialized_copy_n tr src s 0 dst d = Returns dst"
| "uninitialized_copy_n tr src s (Suc n) dst d =
     (case read_at src s of
        None \<Rightarrow> Undefined
      | Some x \<Rightarrow>
          if copy_throws tr x then Throws ElementOperationError dst
          else
            (case construct_at dst d x of
               None \<Rightarrow> Undefined
             | Some dst' \<Rightarrow>
                 (case uninitialized_copy_n tr src (Suc s) n dst' (Suc d) of
                    Returns r \<Rightarrow> Returns r
                  | Throws e r \<Rightarrow> Throws e (r[d := None])
                  | Undefined \<Rightarrow> Undefined)))"

text \<open>
  \<^verbatim>\<open>std::uninitialized_move_n(src + s, n, dst + d)\<close> between two blocks: the result is
  the pair of both blocks afterwards. \<^verbatim>\<open>std::destroy_n(b + p, n)\<close>.
\<close>

fun uninitialized_move_n ::
  "'a traits \<Rightarrow> 'a slot list \<Rightarrow> nat \<Rightarrow> nat \<Rightarrow> 'a slot list \<Rightarrow> nat \<Rightarrow>
   ('a slot list \<times> 'a slot list) option" where
  "uninitialized_move_n tr src s 0 dst d = Some (src, dst)"
| "uninitialized_move_n tr src s (Suc n) dst d =
     (case read_at src s of
        None \<Rightarrow> None
      | Some x \<Rightarrow>
          (case construct_at dst d x of
             None \<Rightarrow> None
           | Some dst' \<Rightarrow>
               uninitialized_move_n tr (src[s := Some (moved_from tr x)]) (Suc s) n dst' (Suc d)))"

fun destroy_n :: "'a slot list \<Rightarrow> nat \<Rightarrow> nat \<Rightarrow> 'a slot list option" where
  "destroy_n b p 0 = Some b"
| "destroy_n b p (Suc n) =
     (case destroy_at b p of None \<Rightarrow> None | Some b' \<Rightarrow> destroy_n b' (Suc p) n)"

text \<open>
  \<^verbatim>\<open>std::move(first, last, d_first)\<close> and \<^verbatim>\<open>std::move_backward(first, last, d_last)\<close>
  inside one block. Each step move-assigns one element: the target slot, which must hold
  an element, receives the value and the source slot is left moved-from. A range whose
  \<open>last\<close> lies before its \<open>first\<close> is not a valid range, and the call is undefined.
\<close>

fun move_loop :: "'a traits \<Rightarrow> 'a slot list \<Rightarrow> nat \<Rightarrow> nat \<Rightarrow> nat \<Rightarrow> 'a slot list option" where
  "move_loop tr b first d_first 0 = Some b"
| "move_loop tr b first d_first (Suc n) =
     (case read_at b first of
        None \<Rightarrow> None
      | Some x \<Rightarrow>
          (case assign_at b d_first x of
             None \<Rightarrow> None
           | Some b' \<Rightarrow>
               move_loop tr (b'[first := Some (moved_from tr x)]) (Suc first) (Suc d_first) n))"

definition std_move :: "'a traits \<Rightarrow> 'a slot list \<Rightarrow> nat \<Rightarrow> nat \<Rightarrow> nat \<Rightarrow> 'a slot list option" where
  "std_move tr b first lastp d_first =
     (if first \<le> lastp then move_loop tr b first d_first (lastp - first) else None)"

fun move_backward_loop ::
  "'a traits \<Rightarrow> 'a slot list \<Rightarrow> nat \<Rightarrow> nat \<Rightarrow> nat \<Rightarrow> 'a slot list option" where
  "move_backward_loop tr b lastp d_last 0 = Some b"
| "move_backward_loop tr b lastp d_last (Suc n) =
     (if lastp = 0 \<or> d_last = 0 then None
      else
        (case read_at b (lastp - 1) of
           None \<Rightarrow> None
         | Some x \<Rightarrow>
             (case assign_at b (d_last - 1) x of
                None \<Rightarrow> None
              | Some b' \<Rightarrow>
                  move_backward_loop tr (b'[lastp - 1 := Some (moved_from tr x)])
                    (lastp - 1) (d_last - 1) n)))"

definition std_move_backward ::
  "'a traits \<Rightarrow> 'a slot list \<Rightarrow> nat \<Rightarrow> nat \<Rightarrow> nat \<Rightarrow> 'a slot list option" where
  "std_move_backward tr b first lastp d_last =
     (if first \<le> lastp then move_backward_loop tr b lastp d_last (lastp - first) else None)"

subsection \<open>Vector: construction, destruction, queries\<close>

record 'a Vector =
  m_data :: "'a RawMemory"
  m_size :: nat

definition Size :: "'a Vector \<Rightarrow> nat" where
  "Size v = m_size v"

definition Capacity :: "'a Vector \<Rightarrow> nat" where
  "Capacity v = m_capacity (m_data v)"



definition Vector_copy_ctor :: "'a traits \<Rightarrow> 'a Vector \<Rightarrow> ('a Vector, unit) outcome" where
  "Vector_copy_ctor tr other =
     (let data = RawMemory_ctor tr (m_size other) in
      case uninitialized_copy_n tr (slots (m_data other)) 0 (m_size other) (slots data) 0 of
        Returns b \<Rightarrow> Returns \<lparr>m_data = with_slots data b, m_size = m_size other\<rparr>
      | Throws e _ \<Rightarrow> Throws e ()
      | Undefined \<Rightarrow> Undefined)"

text \<open>
  \<^verbatim>\<open>Vector(Vector&& other)\<close>: the pair (new vector, \<open>other\<close> afterwards).
\<close>

definition Vector_move_ctor :: "'a Vector \<Rightarrow> 'a Vector \<times> 'a Vector" where
  "Vector_move_ctor other =
     (let (data, other_data) = RawMemory_move_ctor (m_data other) in
      (\<lparr>m_data = data, m_size = m_size other\<rparr>,
       other\<lparr>m_data := other_data, m_size := 0\<rparr>))"

text \<open>
  \<^verbatim>\<open>~Vector()\<close> destroys the elements in \<open>[0, size_)\<close>; then \<^verbatim>\<open>~RawMemory()\<close>
  releases the block without looking at its slots. The result lists the elements that are
  still constructed in the block when it is released: they are never destroyed.
\<close>

definition Vector_dtor :: "'a Vector \<Rightarrow> 'a list option" where
  "Vector_dtor v =
     (case destroy_n (slots (m_data v)) 0 (m_size v) of
        None \<Rightarrow> None
      | Some b \<Rightarrow> Some (map the (filter (\<lambda>s. s \<noteq> None) b)))"

text \<open>\<^verbatim>\<open>T& operator[](size_t index)\<close>: asserts \<^verbatim>\<open>index < size_\<close>, then \<^verbatim>\<open>data_[index]\<close>.\<close>

definition Vector_index :: "'a Vector \<Rightarrow> nat \<Rightarrow> 'a option" where
  "Vector_index v index =
     (if index < m_size v then
        (case RawMemory_index (m_data v) index of
           None \<Rightarrow> None
         | Some i \<Rightarrow> read_at (slots (m_data v)) i)
      else None)"

subsection \<open>Vector: swap and assignment\<close>

text \<open>
  \<^verbatim>\<open>std::swap(a, b)\<close> on two storage managers: \<^verbatim>\<open>T tmp(std::move(a)); a = std::move(b);
  b = std::move(tmp);\<close>. The temporary is the reference \<open>None\<close> of an extended store.
\<close>

definition std_swap_RawMemory ::
  "('r \<Rightarrow> 'a RawMemory) \<Rightarrow> 'r \<Rightarrow> 'r \<Rightarrow> ('r \<Rightarrow> 'a RawMemory)" where
  "std_swap_RawMemory h a b =
     (let (tmp, a') = RawMemory_move_ctor (h a);
          s0 = (\<lambda>r. case r of None \<Rightarrow> tmp | Some q \<Rightarrow> (h(a := a')) q);
          s1 = RawMemory_move_assign s0 (Some a) (Some b);
          s2 = RawMemory_move_assign s1 (Some b) None
      in (\<lambda>q. s2 (Some q)))"

text \<open>\<^verbatim>\<open>void Swap(Vector& other)\<close>.\<close>

definition Vector_Swap :: "('r \<Rightarrow> 'a Vector) \<Rightarrow> 'r \<Rightarrow> 'r \<Rightarrow> ('r \<Rightarrow> 'a Vector)" where
  "Vector_Swap h this other =
     (let d = std_swap_RawMemory (\<lambda>r. m_data (h r)) this other;
          h1 = (\<lambda>r. (h r)\<lparr>m_data := d r\<rparr>);
          h2 = h1(this := (h1 this)\<lparr>m_size := m_size (h1 other)\<rparr>,
                  other := (h1 other)\<lparr>m_size := m_size (h1 this)\<rparr>)
      in h2)"

text \<open>
  \<^verbatim>\<open>Vector& operator=(Vector&& rhs)\<close>: \<^verbatim>\<open>data_ = std::move(rhs.data_)\<close> is the move
  assignment of \<^verbatim>\<open>RawMemory\<close> on the two \<^verbatim>\<open>data_\<close> members, then
  \<^verbatim>\<open>size_ = rhs.size_; rhs.size_ = 0;\<close>.
\<close>

definition Vector_move_assign :: "('r \<Rightarrow> 'a Vector) \<Rightarrow> 'r \<Rightarrow> 'r \<Rightarrow> ('r \<Rightarrow> 'a Vector)" where
  "Vector_move_assign h this rhs =
     (if this \<noteq> rhs then
        let d = RawMemory_move_assign (\<lambda>r. m_data (h r)) this rhs;
            h1 = (\<lambda>r. (h r)\<lparr>m_data := d r\<rparr>);
            h2 = h1(this := (h1 this)\<lparr>m_size := m_size (h1 rhs)\<rparr>);
            h3 = h2(rhs := (h2 rhs)\<lparr>m_size := 0\<rparr>)
        in h3
      else h)"

text \<open>
  The loop \<^verbatim>\<open>for (i = 0; i < min(size_, rhs.size_); ++i) data_[i] = rhs.data_[i];\<close> of the
  copy assignment, from index \<open>i\<close> for \<open>n\<close> more steps. Both \<^verbatim>\<open>operator[]\<close> calls
  assert \<^verbatim>\<open>i < capacity_\<close>. A throwing copy assignment leaves the loop with the block as
  it is then.
\<close>

fun copy_assign_loop ::
  "'a traits \<Rightarrow> 'a RawMemory \<Rightarrow> 'a RawMemory \<Rightarrow> 'a slot list \<Rightarrow> nat \<Rightarrow> nat \<Rightarrow>
   ('a slot list, 'a slot list) outcome" where
  "copy_assign_loop tr rhs_data data b i 0 = Returns b"
| "copy_assign_loop tr rhs_data data b i (Suc n) =
     (case RawMemory_index rhs_data i of
        None \<Rightarrow> Undefined
      | Some j \<Rightarrow>
          (case read_at (slots rhs_data) j of
             None \<Rightarrow> Undefined
           | Some x \<Rightarrow>
               (case RawMemory_index data i of
                  None \<Rightarrow> Undefined
                | Some k \<Rightarrow>
                    if copy_throws tr x then Throws ElementOperationError b
                    else
                      (case assign_at b k x of
                         None \<Rightarrow> Undefined
                       | Some b' \<Rightarrow> copy_assign_loop tr rhs_data data b' (Suc i) n))))"

text \<open>
  The branch of the copy assignment taken when \<^verbatim>\<open>rhs.size_ <= data_.Capacity()\<close>, on
  the target \<open>v\<close> and the source \<open>rhs\<close>: destroy the excess (the loop of
  \<^verbatim>\<open>std::destroy_at\<close> calls is \<open>destroy_n\<close>), assign the common prefix, construct the
  rest, and only then set \<^verbatim>\<open>size_\<close>.
\<close>

definition copy_assign_in_place ::
  "'a traits \<Rightarrow> 'a Vector \<Rightarrow> 'a Vector \<Rightarrow> ('a Vector, 'a Vector) outcome" where
  "copy_assign_in_place tr v rhs =
     (case (if m_size v > m_size rhs
            then destroy_n (slots (m_data v)) (m_size rhs) (m_size v - m_size rhs)
            else Some (slots (m_data v))) of
        None \<Rightarrow> Undefined
      | Some b1 \<Rightarrow>
          (case copy_assign_loop tr (m_data rhs) (m_data v) b1 0 (min (m_size v) (m_size rhs)) of
             Undefined \<Rightarrow> Undefined
           | Throws e b2 \<Rightarrow> Throws e (v\<lparr>m_data := with_slots (m_data v) b2\<rparr>)
           | Returns b2 \<Rightarrow>
               (case (if m_size v < m_size rhs
                      then uninitialized_copy_n tr (slots (m_data rhs)) (m_size v)
                             (m_size rhs - m_size v) b2 (m_size v)
                      else Returns b2) of
                  Undefined \<Rightarrow> Undefined
                | Throws e b3 \<Rightarrow> Throws e (v\<lparr>m_data := with_slots (m_data v) b3\<rparr>)
                | Returns b3 \<Rightarrow>
                    Returns (v\<lparr>m_data := with_slots (m_data v) b3, m_size := m_size rhs\<rparr>))))"

text \<open>
  \<^verbatim>\<open>Vector& operator=(const Vector& rhs)\<close>. In the first branch the local
  \<^verbatim>\<open>rhs_copy\<close> is the reference \<open>None\<close> of an extended store; it is destroyed at the end
  of the block.
\<close>

definition Vector_copy_assign ::
  "'a traits \<Rightarrow> ('r \<Rightarrow> 'a Vector) \<Rightarrow> 'r \<Rightarrow> 'r \<Rightarrow> ('r \<Rightarrow> 'a Vector, 'r \<Rightarrow> 'a Vector) outcome" where
  "Vector_copy_assign tr h this rhs =
     (if this \<noteq> rhs then
        if m_size (h rhs) > Capacity (h this) then
          (case Vector_copy_ctor tr (h rhs) of
             Undefined \<Rightarrow> Undefined
           | Throws e _ \<Rightarrow> Throws e h
           | Returns rhs_copy \<Rightarrow>
               (let s0 = (\<lambda>r. case r of None \<Rightarrow> rhs_copy | Some q \<Rightarrow> h q);
                    s1 = Vector_Swap s0 (Some this) None
                in case Vector_dtor (s1 None) of
                     None \<Rightarrow> Undefined
                   | Some _ \<Rightarrow> Returns (\<lambda>q. s1 (Some q))))
        else
          (case copy_assign_in_place tr (h this) (h rhs) of
             Undefined \<Rightarrow> Undefined
           | Throws e v \<Rightarrow> Throws e (h(this := v))
           | Returns v \<Rightarrow> Returns (h(this := v)))
      else Returns h)"

subsection \<open>Vector: growth\<close>

text \<open>
  \<^verbatim>\<open>void CopyOrMove(T* from, size_t size, T* to)\<close> from offset \<open>s\<close> of block \<open>src\<close>
  to offset \<open>d\<close> of block \<open>dst\<close>; the result is the pair of both blocks afterwards.
\<close>

definition CopyOrMove ::
  "'a traits \<Rightarrow> 'a slot list \<Rightarrow> nat \<Rightarrow> nat \<Rightarrow> 'a slot list \<Rightarrow> nat \<Rightarrow>
   ('a slot list \<times> 'a slot list, 'a slot list \<times> 'a slot list) outcome" where
  "CopyOrMove tr src s n dst d =
     (if nothrow_move_constructible tr \<or> \<not> copy_constructible tr then
        (case uninitialized_move_n tr src s n dst d of
           None \<Rightarrow> Undefined
         | Some (src', dst') \<Rightarrow>
             (case destroy_n src' s n of
                None \<Rightarrow> Undefined
              | Some src'' \<Rightarrow> Returns (src'', dst')))
      else
        (case uninitialized_copy_n tr src s n dst d of
           Undefined \<Rightarrow> Undefined
         | Throws e dst' \<Rightarrow> Throws e (src, dst')
         | Returns dst' \<Rightarrow>
             (case destroy_n src s n of
                None \<Rightarrow> Undefined
              | Some src' \<Rightarrow> Returns (src', dst'))))"



text \<open>
  \<^verbatim>\<open>T& EmplaceBack(Args&&... args)\<close>. The result pairs the vector with the argument pack
  as the call leaves it. In the growth branch the element is constructed in the new block
  first; the old block is touched only by \<^verbatim>\<open>CopyOrMove\<close> after that.
\<close>

definition EmplaceBack ::
  "'a traits \<Rightarrow> 'a Vector \<Rightarrow> 'a ctor_args \<Rightarrow>
   ('a Vector \<times> 'a ctor_args, 'a Vector \<times> 'a ctor_args) outcome" where
  "EmplaceBack tr v args =
     (case
        (if m_size v = Capacity v then
           (let new_data = RawMemory_ctor tr (if m_size v = 0 then 1 else m_size v * 2) in
            case RawMemory_plus new_data (m_size v) of
              None \<Rightarrow> Undefined
            | Some p \<Rightarrow>
                (case construct_T tr args of
                   Inl e \<Rightarrow> Throws e (v, args)
                 | Inr (x, args') \<Rightarrow>
                     (case construct_at (slots new_data) p x of
                        None \<Rightarrow> Undefined
                      | Some nb \<Rightarrow>
                          (case CopyOrMove tr (slots (m_data v)) 0 (m_size v) nb 0 of
                             Undefined \<Rightarrow> Undefined
                           | Throws e (b, _) \<Rightarrow>
                               Throws e (v\<lparr>m_data := with_slots (m_data v) b\<rparr>, args')
                           | Returns (_, nb') \<Rightarrow>
                               Returns (v\<lparr>m_data := with_slots new_data nb'\<rparr>, args')))))
         else
           (case RawMemory_plus (m_data v) (m_size v) of
              None \<Rightarrow> Undefined
            | Some p \<Rightarrow>
                (case construct_T tr args of
                   Inl e \<Rightarrow> Throws e (v, args)
                 | Inr (x, args') \<Rightarrow>
                     (case construct_at (slots (m_data v)) p x of
                        None \<Rightarrow> Undefined
                      | Some b \<Rightarrow> Returns (v\<lparr>m_data := with_slots (m_data v) b\<rparr>, args'))))) of
        Undefined \<Rightarrow> Undefined
      | Throws e r \<Rightarrow> Throws e r
      | Returns (v1, args') \<Rightarrow>
          (let v2 = v1\<lparr>m_size := m_size v1 + 1\<rparr> in
           case RawMemory_index (m_data v2) (m_size v2 - 1) of
             None \<Rightarrow> Undefined
           | Some _ \<Rightarrow> Returns (v2, args')))"

text \<open>
  For the functions that take one \<^verbatim>\<open>T\<close> by reference, the result pairs the vector with
  the value of the caller's object as the call leaves it: \<open>referenced x args\<close> is the
  object a pack of one reference refers to (and \<open>x\<close> for the other packs).
\<close>

fun referenced :: "'a \<Rightarrow> 'a ctor_args \<Rightarrow> 'a" where
  "referenced x (ConstRef y) = y"
| "referenced x (LvalueRef y) = y"
| "referenced x (RvalueRef y) = y"
| "referenced x NoArgs = x"
| "referenced x (OtherArgs r) = x"

definition caller_view ::
  "'a \<Rightarrow> ('a Vector \<times> 'a ctor_args, 'a Vector \<times> 'a ctor_args) outcome \<Rightarrow>
   ('a Vector \<times> 'a, 'a Vector \<times> 'a) outcome" where
  "caller_view x r =
     (case r of
        Returns (v, args) \<Rightarrow> Returns (v, referenced x args)
      | Throws e (v, args) \<Rightarrow> Throws e (v, referenced x args)
      | Undefined \<Rightarrow> Undefined)"

text \<open>
  \<^verbatim>\<open>void PushBack(const T& value)\<close> forwards a \<^verbatim>\<open>const T&\<close>;
  \<^verbatim>\<open>void PushBack(T&& value)\<close> forwards \<^verbatim>\<open>std::move(value)\<close>.
\<close>

definition PushBack_const ::
  "'a traits \<Rightarrow> 'a Vector \<Rightarrow> 'a \<Rightarrow> ('a Vector \<times> 'a, 'a Vector \<times> 'a) outcome" where
  "PushBack_const tr v value = caller_view value (EmplaceBack tr v (ConstRef value))"

definition PushBack_rvalue ::
  "'a traits \<Rightarrow> 'a Vector \<Rightarrow> 'a \<Rightarrow> ('a Vector \<times> 'a, 'a Vector \<times> 'a) outcome" where
  "PushBack_rvalue tr v value = caller_view value (EmplaceBack tr v (RvalueRef value))"

text \<open>
  \<^verbatim>\<open>void PopBack()\<close>: \<^verbatim>\<open>std::destroy_n(data_.GetAddress() + size_ - 1, 1); --size_;\<close>.
  On an empty vector the pointer lies before the block.
\<close>

definition PopBack :: "'a Vector \<Rightarrow> 'a Vector option" where
  "PopBack v =
     (if m_size v = 0 then None
      else
        (case destroy_n (slots (m_data v)) (m_size v - 1) 1 of
           None \<Rightarrow> None
         | Some b \<Rightarrow> Some (v\<lparr>m_data := with_slots (m_data v) b, m_size := m_size v - 1\<rparr>)))"

subsection \<open>Vector: positional insertion and removal\<close>

text \<open>
  \<^verbatim>\<open>iterator Relocate(const_iterator pos, Args&&... args)\<close>, the growth path of
  \<^verbatim>\<open>Emplace\<close>. \<^verbatim>\<open>size_ - index\<close> is a \<^verbatim>\<open>size_t\<close> subtraction: for
  \<^verbatim>\<open>index > size_\<close> it wraps to a count far beyond the block.
\<close>

definition Relocate ::
  "'a traits \<Rightarrow> 'a Vector \<Rightarrow> nat \<Rightarrow> 'a ctor_args \<Rightarrow>
   ('a Vector \<times> 'a ctor_args, 'a Vector \<times> 'a ctor_args) outcome" where
  "Relocate tr v index args =
     (let new_data = RawMemory_ctor tr (if m_size v = 0 then 1 else m_size v * 2) in
      case RawMemory_plus new_data index of
        None \<Rightarrow> Undefined
      | Some p \<Rightarrow>
          (case construct_T tr args of
             Inl e \<Rightarrow> Throws e (v, args)
           | Inr (x, args') \<Rightarrow>
               (case construct_at (slots new_data) p x of
                  None \<Rightarrow> Undefined
                | Some nb0 \<Rightarrow>
                    (case CopyOrMove tr (slots (m_data v)) 0 index nb0 0 of
                       Undefined \<Rightarrow> Undefined
                     | Throws e (b1, _) \<Rightarrow>
                         Throws e (v\<lparr>m_data := with_slots (m_data v) b1\<rparr>, args')
                     | Returns (b1, nb1) \<Rightarrow>
                         (case RawMemory_plus (m_data v) index of
                            None \<Rightarrow> Undefined
                          | Some f \<Rightarrow>
                              if index > m_size v then Undefined
                              else
                                (case RawMemory_plus new_data (index + 1) of
                                   None \<Rightarrow> Undefined
                                 | Some t \<Rightarrow>
                                     (case CopyOrMove tr b1 f (m_size v - index) nb1 t of
                                        Undefined \<Rightarrow> Undefined
                                      | Throws e (b2, _) \<Rightarrow>
                                          Throws e (v\<lparr>m_data := with_slots (m_data v) b2\<rparr>, args')
                                      | Returns (_, nb2) \<Rightarrow>
                                          Returns (v\<lparr>m_data := with_slots new_data nb2,
                                                     m_size := m_size v + 1\<rparr>, args'))))))))"

text \<open>
  \<^verbatim>\<open>iterator Emplace(const_iterator pos, Args&&... args)\<close>.

  The first branch is \<^verbatim>\<open>return Relocate(pos, std::forward(args)...);\<close>, with
  \<^verbatim>\<open>std::forward\<close> called without its template argument. For the empty pack the
  expansion is empty and the call is \<^verbatim>\<open>Relocate(pos)\<close>. For every other pack the
  template argument of \<^verbatim>\<open>std::forward\<close> cannot be deduced and the instantiation of
  \<^verbatim>\<open>Emplace\<close> is ill-formed, whichever branch a call would take: the result is
  \<open>None\<close>. The sibling calls in \<^verbatim>\<open>EmplaceBack\<close>, in \<^verbatim>\<open>Relocate\<close> and in the other
  branch of \<^verbatim>\<open>Emplace\<close> are written \<^verbatim>\<open>std::forward<Args>(args)...\<close>.

  In the other branch \<^verbatim>\<open>data_[size_ - 1]\<close> is evaluated first: on an empty vector the
  index wraps and \<^verbatim>\<open>assert(index < capacity_)\<close> fails. Then the last element is
  move-constructed into slot \<^verbatim>\<open>size_\<close>, the range \<open>[index, size_ - 1)\<close> is moved one
  slot to the right, and a temporary \<^verbatim>\<open>T()\<close> is move-assigned to slot \<open>index\<close>.
\<close>

definition Emplace ::
  "'a traits \<Rightarrow> 'a Vector \<Rightarrow> nat \<Rightarrow> 'a ctor_args \<Rightarrow>
   ('a Vector \<times> 'a ctor_args, 'a Vector \<times> 'a ctor_args) outcome option" where
  "Emplace tr v index args =
     (case args of
        ConstRef _ \<Rightarrow> None
      | LvalueRef _ \<Rightarrow> None
      | RvalueRef _ \<Rightarrow> None
      | OtherArgs _ \<Rightarrow> None
      | NoArgs \<Rightarrow>
          Some
            (if m_size v = Capacity v then Relocate tr v index NoArgs
             else if m_size v = 0 then Undefined
             else
               (case RawMemory_index (m_data v) (m_size v - 1) of
                  None \<Rightarrow> Undefined
                | Some l \<Rightarrow>
                    (case read_at (slots (m_data v)) l of
                       None \<Rightarrow> Undefined
                     | Some x \<Rightarrow>
                         (case construct_at (slots (m_data v)) (m_size v) x of
                            None \<Rightarrow> Undefined
                          | Some b0 \<Rightarrow>
                              (let b1 = b0[l := Some (moved_from tr x)] in
                               case std_move_backward tr b1 index (m_size v - 1) (m_size v) of
                                 None \<Rightarrow> Undefined
                               | Some b2 \<Rightarrow>
                                   (case construct_T tr NoArgs of
                                      Inl e \<Rightarrow>
                                        Throws e (v\<lparr>m_data := with_slots (m_data v) b2\<rparr>, NoArgs)
                                    | Inr (t, args') \<Rightarrow>
                                        (case RawMemory_index (m_data v) index of
                                           None \<Rightarrow> Undefined
                                         | Some i \<Rightarrow>
                                             (case assign_at b2 i t of
                                                None \<Rightarrow> Undefined
                                              | Some b3 \<Rightarrow>
                                                  Returns
                                                    (v\<lparr>m_data := with_slots (m_data v) b3,
                                                       m_size := m_size v + 1\<rparr>, args'))))))))))"

text \<open>
  \<^verbatim>\<open>iterator Insert(const_iterator pos, const T& value)\<close> and
  \<^verbatim>\<open>iterator Insert(const_iterator pos, T&& value)\<close>. Both bodies are
  \<^verbatim>\<open>return Emplace(pos, value);\<close>, the instantiations of \<^verbatim>\<open>Emplace\<close> for one
  \<^verbatim>\<open>const T&\<close> and for one \<^verbatim>\<open>T&\<close> (in the second overload \<^verbatim>\<open>value\<close> is a named
  rvalue reference, an lvalue).
\<close>

definition Insert_const ::
  "'a traits \<Rightarrow> 'a Vector \<Rightarrow> nat \<Rightarrow> 'a \<Rightarrow>
   ('a Vector \<times> 'a ctor_args, 'a Vector \<times> 'a ctor_args) outcome option" where
  "Insert_const tr v pos value = Emplace tr v pos (ConstRef value)"

definition Insert_rvalue ::
  "'a traits \<Rightarrow> 'a Vector \<Rightarrow> nat \<Rightarrow> 'a \<Rightarrow>
   ('a Vector \<times> 'a ctor_args, 'a Vector \<times> 'a ctor_args) outcome option" where
  "Insert_rvalue tr v pos value = Emplace tr v pos (LvalueRef value)"

text \<open>
  \<^verbatim>\<open>iterator Erase(const_iterator pos)\<close>:
  \<^verbatim>\<open>std::move(begin() + index + 1, end(), begin() + index); data_[size_ - 1].~T(); --size_;\<close>.
\<close>

definition Erase :: "'a traits \<Rightarrow> 'a Vector \<Rightarrow> nat \<Rightarrow> 'a Vector option" where
  "Erase tr v index =
     (case std_move tr (slots (m_data v)) (index + 1) (m_size v) index of
        None \<Rightarrow> None
      | Some b1 \<Rightarrow>
          if m_size v = 0 then None
          else
            (case RawMemory_index (m_data v) (m_size v - 1) of
               None \<Rightarrow> None
             | Some l \<Rightarrow>
                 (case destroy_at b1 l of
                    None \<Rightarrow> None
                  | Some b2 \<Rightarrow>
                      Some (v\<lparr>m_data := with_slots (m_data v) b2, m_size := m_size v - 1\<rparr>))))"

subsection \<open>The representation invariant and the observable contents\<close>

text \<open>
  \<open>elems v\<close> is the run of slots \<open>[0, size_)\<close>. A well-formed vector has a block of
  exactly \<open>capacity_\<close> slots (none when the capacity is 0), of which the first \<open>size_\<close>
  hold elements and the others are raw.
\<close>

definition elems :: "'a Vector \<Rightarrow> 'a slot list" where
  "elems v = take (m_size v) (slots (m_data v))"

definition wf :: "'a Vector \<Rightarrow> bool" where
  "wf v =
     ((m_buffer (m_data v) = None) = (m_capacity (m_data v) = 0) \<and>
      length (slots (m_data v)) = m_capacity (m_data v) \<and>
      m_size v \<le> m_capacity (m_data v) \<and>
      list_all (\<lambda>s. s \<noteq> None) (take (m_size v) (slots (m_data v))) \<and>
      list_all (\<lambda>s. s = None) (drop (m_size v) (slots (m_data v))))"

text \<open>The well-formed vector with elements \<open>xs\<close> and capacity \<open>c\<close>.\<close>

definition vec_of :: "'a list \<Rightarrow> nat \<Rightarrow> 'a Vector" where
  "vec_of xs c =
     \<lparr>m_data = \<lparr>m_buffer = (if c = 0 then None
                             else Some (map Some xs @ replicate (c - length xs) None)),
                m_capacity = c\<rparr>,
      m_size = length xs\<rparr>"

text \<open>
  The elements of a well-formed vector as a list, and two conditions on them:
  \<open>copies_ok\<close>, no element throws when it is copied; \<open>relocation_ok\<close>,
  \<^verbatim>\<open>CopyOrMove\<close> does not throw on them, because it moves or because no copy throws.
\<close>

definition contents :: "'a Vector \<Rightarrow> 'a list" where
  "contents v = map the (elems v)"

definition copies_ok :: "'a traits \<Rightarrow> 'a list \<Rightarrow> bool" where
  "copies_ok tr xs = list_all (\<lambda>x. \<not> copy_throws tr x) xs"

definition relocation_ok :: "'a traits \<Rightarrow> 'a list \<Rightarrow> bool" where
  "relocation_ok tr xs =
     (nothrow_move_constructible tr \<or> \<not> copy_constructible tr \<or> copies_ok tr xs)"


subsection \<open>Concrete inputs\<close>

text \<open>
  An element type like \<^verbatim>\<open>int\<close>: nothing throws, a move leaves the value in place.
  A second element type over the same values whose copy constructor and copy assignment
  throw on the value 13 and whose move constructor is not \<^verbatim>\<open>noexcept\<close>, so that
  \<^verbatim>\<open>CopyOrMove\<close> copies.
\<close>

definition int_traits :: "int traits" where
  "int_traits =
     \<lparr>value_construct = Inr 0, copy_throws = (\<lambda>_. False), moved_from = (\<lambda>x. x),
      nothrow_move_constructible = True, copy_constructible = True, sizeof_T = 4\<rparr>"

definition fussy_traits :: "int traits" where
  "fussy_traits =
     \<lparr>value_construct = Inr 0, copy_throws = (\<lambda>x. x = 13), moved_from = (\<lambda>x. x),
      nothrow_move_constructible = False, copy_constructible = True, sizeof_T = 4\<rparr>"

text \<open>
  Two storage managers, of capacity 2 (reference \<open>True\<close>) and of capacity 3 (reference
  \<open>False\<close>). Two vectors, \<open>[1, 2]\<close> with capacity 2 (reference \<open>True\<close>) and \<open>[7]\<close> with
  capacity 1 (reference \<open>False\<close>). Two more: \<open>[1, 2]\<close> with capacity 2 and a source of five
  elements, and a target \<open>[1, 2, 3]\<close> with capacity 4 whose source holds 13.
\<close>

definition two_managers :: "bool \<Rightarrow> int RawMemory" where
  "two_managers r = (if r then RawMemory_ctor int_traits 2 else RawMemory_ctor int_traits 3)"

definition two_vectors :: "bool \<Rightarrow> int Vector" where
  "two_vectors r = (if r then vec_of [1, 2] 2 else vec_of [7] 1)"

definition small_and_large :: "bool \<Rightarrow> int Vector" where
  "small_and_large r = (if r then vec_of [1, 2] 2 else vec_of [5, 6, 7, 8, 9] 5)"

definition small_and_unlucky :: "bool \<Rightarrow> int Vector" where
  "small_and_unlucky r = (if r then vec_of [1, 2] 2 else vec_of [5, 13, 7] 3)"

definition roomy_and_unlucky :: "bool \<Rightarrow> int Vector" where
  "roomy_and_unlucky r = (if r then vec_of [1, 2, 3] 4 else vec_of [5, 13] 2)"

section \<open>The slot algorithms on runs of elements\<close>

text \<open>
  Each algorithm is characterised on a block written as a prefix, the run it works on, and
  a suffix. The proofs are inductions on the run that carry the prefix along.
\<close>

lemma read_at_mid: "read_at (pre @ s # post) (length pre) = s"
  by (simp add: read_at_def)

lemma construct_at_mid: "construct_at (pre @ s # post) (length pre) x = Some (pre @ Some x # post)"
  by (simp add: construct_at_def)

lemma destroy_at_mid: "destroy_at (pre @ Some y # post) (length pre) = Some (pre @ None # post)"
  by (simp add: destroy_at_def)

lemma assign_at_mid: "assign_at (pre @ Some y # post) (length pre) x = Some (pre @ Some x # post)"
  by (simp add: assign_at_def)

lemma destroy_n_run:
  "destroy_n (pre @ map Some xs @ post) (length pre) (length xs) =
   Some (pre @ replicate (length xs) None @ post)"
proof (induction xs arbitrary: pre)
  case Nil
  then show ?case by simp
next
  case (Cons x xs)
  have "destroy_n ((pre @ [None]) @ map Some xs @ post) (length (pre @ [None])) (length xs) =
        Some ((pre @ [None]) @ replicate (length xs) None @ post)"
    by (rule Cons.IH)
  then show ?case by (simp add: destroy_at_mid)
qed

lemma uninitialized_move_n_run:
  "length mid = length xs \<Longrightarrow>
   uninitialized_move_n tr (pre @ map Some xs @ post) (length pre) (length xs)
     (dpre @ mid @ dpost) (length dpre) =
   Some (pre @ map (\<lambda>x. Some (moved_from tr x)) xs @ post, dpre @ map Some xs @ dpost)"
proof (induction xs arbitrary: pre dpre mid)
  case Nil
  then show ?case by simp
next
  case (Cons x xs)
  then obtain m mid' where mid: "mid = m # mid'" "length mid' = length xs"
    by (cases mid) auto
  have "uninitialized_move_n tr ((pre @ [Some (moved_from tr x)]) @ map Some xs @ post)
          (length (pre @ [Some (moved_from tr x)])) (length xs)
          ((dpre @ [Some x]) @ mid' @ dpost) (length (dpre @ [Some x])) =
        Some ((pre @ [Some (moved_from tr x)]) @ map (\<lambda>x. Some (moved_from tr x)) xs @ post,
              (dpre @ [Some x]) @ map Some xs @ dpost)"
    by (rule Cons.IH) (rule mid)
  then show ?case by (simp add: mid read_at_mid construct_at_mid)
qed

lemma uninitialized_copy_n_run:
  "length mid = length xs \<Longrightarrow> \<forall>x\<in>set xs. \<not> copy_throws tr x \<Longrightarrow>
   uninitialized_copy_n tr (pre @ map Some xs @ post) (length pre) (length xs)
     (dpre @ mid @ dpost) (length dpre) =
   Returns (dpre @ map Some xs @ dpost)"
proof (induction xs arbitrary: pre dpre mid)
  case Nil
  then show ?case by simp
next
  case (Cons x xs)
  then obtain m mid' where mid: "mid = m # mid'" "length mid' = length xs"
    by (cases mid) auto
  have "uninitialized_copy_n tr ((pre @ [Some x]) @ map Some xs @ post)
          (length (pre @ [Some x])) (length xs)
          ((dpre @ [Some x]) @ mid' @ dpost) (length (dpre @ [Some x])) =
        Returns ((dpre @ [Some x]) @ map Some xs @ dpost)"
    using Cons.prems by (intro Cons.IH mid) simp
  then show ?case using Cons.prems by (simp add: mid read_at_mid construct_at_mid)
qed

text \<open>throwing copy: first throwing element at position length ys\<close>
lemma uninitialized_copy_n_throws:
  "length mid = length ys + Suc k \<Longrightarrow> \<forall>x\<in>set ys. \<not> copy_throws tr x \<Longrightarrow> copy_throws tr t \<Longrightarrow>
   uninitialized_copy_n tr (pre @ map Some ys @ Some t # post) (length pre) (length ys + Suc k)
     (dpre @ mid @ dpost) (length dpre) =
   Throws ElementOperationError (dpre @ replicate (length ys) None @ drop (length ys) mid @ dpost)"
proof (induction ys arbitrary: pre dpre mid)
  case Nil
  then show ?case by (simp add: read_at_mid)
next
  case (Cons x xs)
  then obtain m mid' where mid: "mid = m # mid'" "length mid' = length xs + Suc k"
    by (cases mid) auto
  have "uninitialized_copy_n tr ((pre @ [Some x]) @ map Some xs @ Some t # post)
          (length (pre @ [Some x])) (length xs + Suc k)
          ((dpre @ [Some x]) @ mid' @ dpost) (length (dpre @ [Some x])) =
        Throws ElementOperationError ((dpre @ [Some x]) @ replicate (length xs) None @ drop (length xs) mid' @ dpost)"
    using Cons.prems by (intro Cons.IH mid) simp_all
  then show ?case using Cons.prems by (simp add: mid read_at_mid construct_at_mid)
qed


lemma move_loop_run:
  "move_loop tr (pre @ Some e # map Some ys @ post) (Suc (length pre)) (length pre) (length ys) =
   Some (pre @ map Some ys @ Some (last (e # map (moved_from tr) ys)) # post)"
proof (induction ys arbitrary: pre e)
  case Nil
  then show ?case by simp
next
  case (Cons y ys)
  have r: "read_at (pre @ Some e # Some y # map Some ys @ post) (Suc (length pre)) = Some y"
    using read_at_mid [of "pre @ [Some e]" "Some y" "map Some ys @ post"] by simp
  have u: "(pre @ Some y # Some y # map Some ys @ post)[Suc (length pre) := Some (moved_from tr y)]
           = (pre @ [Some y]) @ Some (moved_from tr y) # map Some ys @ post"
    using list_update_length [of "pre @ [Some y]" "Some y" "map Some ys @ post" "Some (moved_from tr y)"]
    by simp
  have "move_loop tr ((pre @ [Some y]) @ Some (moved_from tr y) # map Some ys @ post)
          (Suc (length (pre @ [Some y]))) (length (pre @ [Some y])) (length ys) =
        Some ((pre @ [Some y]) @ map Some ys @ Some (last (moved_from tr y # map (moved_from tr) ys)) # post)"
    by (rule Cons.IH)
  then show ?case using r u by (simp add: assign_at_mid)
qed

lemma move_backward_loop_run:
  "move_backward_loop tr (pre @ map Some ys @ Some e # post)
     (length pre + length ys) (Suc (length pre + length ys)) (length ys) =
   Some (pre @ Some (hd (map (moved_from tr) ys @ [e])) # map Some ys @ post)"
proof (induction ys arbitrary: e post rule: rev_induct)
  case Nil
  then show ?case by simp
next
  case (snoc y ys)
  let ?b = "pre @ map Some (ys @ [y]) @ Some e # post"
  have b: "?b = (pre @ map Some ys) @ Some y # Some e # post" by simp
  have r: "read_at ?b (length pre + length ys) = Some y"
    unfolding b using read_at_mid [of "pre @ map Some ys" "Some y" "Some e # post"] by simp
  have a: "assign_at ?b (Suc (length pre + length ys)) y = Some ((pre @ map Some ys) @ Some y # Some y # post)"
    unfolding b using assign_at_mid [of "pre @ map Some ys @ [Some y]" e post y] by simp
  have u: "((pre @ map Some ys) @ Some y # Some y # post)[length pre + length ys := Some (moved_from tr y)]
           = pre @ map Some ys @ Some (moved_from tr y) # Some y # post"
    using list_update_length [of "pre @ map Some ys" "Some y" "Some y # post" "Some (moved_from tr y)"]
    by simp
  have ih: "move_backward_loop tr (pre @ map Some ys @ Some (moved_from tr y) # Some y # post)
     (length pre + length ys) (Suc (length pre + length ys)) (length ys) =
   Some (pre @ Some (hd (map (moved_from tr) ys @ [moved_from tr y])) # map Some ys @ Some y # post)"
    by (rule snoc.IH)
  have h: "hd (map (moved_from tr) (ys @ [y]) @ [e]) = hd (map (moved_from tr) ys @ [moved_from tr y])"
    by (cases ys) simp_all
  show ?case using r a u ih h by simp
qed

section \<open>Well-formed vectors\<close>

text \<open>
  Every well-formed vector is \<open>vec_of xs c\<close> for its elements \<open>xs\<close> and its capacity
  \<open>c\<close>; the operations are first characterised on that form.
\<close>

lemma slots_vec_of:
  "length xs \<le> c \<Longrightarrow> slots (m_data (vec_of xs c)) = map Some xs @ replicate (c - length xs) None"
  by (auto simp: slots_def vec_of_def)

lemma Capacity_vec_of [simp]: "Capacity (vec_of xs c) = c" "m_capacity (m_data (vec_of xs c)) = c"
  by (simp_all add: Capacity_def vec_of_def)

lemma m_size_vec_of [simp]: "m_size (vec_of xs c) = length xs" "Size (vec_of xs c) = length xs"
  by (simp_all add: vec_of_def Size_def)

lemma elems_vec_of: "length xs \<le> c \<Longrightarrow> elems (vec_of xs c) = map Some xs"
  by (simp add: elems_def slots_vec_of)

lemma contents_vec_of: "length xs \<le> c \<Longrightarrow> contents (vec_of xs c) = xs"
  by (simp add: contents_def elems_vec_of comp_def)

lemma wf_vec_of: "length xs \<le> c \<Longrightarrow> wf (vec_of xs c)"
  by (auto simp: wf_def slots_vec_of list_all_iff) (auto simp: vec_of_def split: if_splits)

lemma all_Some_map: "list_all (\<lambda>s. s \<noteq> None) ss \<Longrightarrow> ss = map Some (map the ss)"
  by (induction ss) auto

lemma all_None_replicate: "list_all (\<lambda>s. s = None) ss \<Longrightarrow> ss = replicate (length ss) None"
  by (induction ss) auto

lemma wf_is_vec_of:
  assumes "wf v"
  shows "v = vec_of (map the (elems v)) (Capacity v)" and "length (elems v) = m_size v"
    and "m_size v \<le> Capacity v"
proof -
  let ?b = "slots (m_data v)"
  from assms have n: "(m_buffer (m_data v) = None) = (m_capacity (m_data v) = 0)"
    and l: "length ?b = m_capacity (m_data v)" and s: "m_size v \<le> m_capacity (m_data v)"
    and a: "list_all (\<lambda>s. s \<noteq> None) (take (m_size v) ?b)"
    and r: "list_all (\<lambda>s. s = None) (drop (m_size v) ?b)"
    by (simp_all add: wf_def)
  show len: "length (elems v) = m_size v" using l s by (simp add: elems_def)
  show "m_size v \<le> Capacity v" using s by (simp add: Capacity_def)
  have "?b = take (m_size v) ?b @ drop (m_size v) ?b" by simp
  also have "\<dots> = map Some (map the (elems v)) @ replicate (Capacity v - m_size v) None"
    using all_Some_map [OF a] all_None_replicate [OF r] l by (simp add: elems_def Capacity_def)
  finally have b: "?b = map Some (map the (elems v)) @ replicate (Capacity v - m_size v) None" .
  have "m_buffer (m_data v) =
        (if Capacity v = 0 then None
         else Some (map Some (map the (elems v)) @ replicate (Capacity v - m_size v) None))"
  proof (cases "m_buffer (m_data v)")
    case None
    then show ?thesis using n by (simp add: Capacity_def)
  next
    case (Some bb)
    then have "?b = bb" by (simp add: slots_def)
    then show ?thesis using Some n b by (simp add: Capacity_def)
  qed
  then show "v = vec_of (map the (elems v)) (Capacity v)"
    using len by (simp add: vec_of_def Capacity_def)
qed

lemma wf_cases:
  assumes "wf v"
  obtains xs c where "v = vec_of xs c" "length xs \<le> c" "elems v = map Some xs"
proof -
  let ?xs = "map the (elems v)"
  have v: "v = vec_of ?xs (Capacity v)" and l: "length ?xs \<le> Capacity v"
    using wf_is_vec_of [OF assms] by simp_all
  have "elems (vec_of ?xs (Capacity v)) = map Some ?xs" using l by (rule elems_vec_of)
  then have "elems v = map Some ?xs" using v by simp
  then show ?thesis using that v l by blast
qed

lemma with_slots_vec_of:
  "length ys \<le> c \<Longrightarrow> length b = c \<Longrightarrow>
   b = map Some ys @ replicate (c - length ys) None \<Longrightarrow>
   (vec_of xs c)\<lparr>m_data := with_slots (m_data (vec_of xs c)) b, m_size := length ys\<rparr> = vec_of ys c"
  by (cases "c = 0") (simp_all add: vec_of_def with_slots_def)

lemma RawMemory_ctor_fits:
  assumes "fits tr n"
  shows "RawMemory_ctor tr n =
         \<lparr>m_buffer = (if n \<noteq> 0 then Some (replicate n None) else None), m_capacity = n\<rparr>"
proof -
  from assms have "((n * sizeof_T tr) mod 2 ^ 64) div sizeof_T tr = n"
    by (simp add: fits_def)
  then show ?thesis by (simp add: RawMemory_ctor_def Allocate_def)
qed

lemma slots_RawMemory_ctor: "fits tr n \<Longrightarrow> slots (RawMemory_ctor tr n) = replicate n None"
  by (simp add: slots_def RawMemory_ctor_fits)

lemma m_capacity_RawMemory_ctor [simp]: "m_capacity (RawMemory_ctor tr n) = n"
  by (simp add: RawMemory_ctor_def)


lemma fits_mono: "fits tr n \<Longrightarrow> m \<le> n \<Longrightarrow> fits tr m"
  by (auto simp: fits_def elim: le_less_trans [rotated] intro: mult_le_mono1)

lemma with_slots_ctor:
  "fits tr c \<Longrightarrow> length ys \<le> c \<Longrightarrow>
   \<lparr>m_data = with_slots (RawMemory_ctor tr c) (map Some ys @ replicate (c - length ys) None),
    m_size = length ys\<rparr> = vec_of ys c"
  by (simp add: vec_of_def with_slots_def RawMemory_ctor_fits)

lemma Vector_index_elems:
  assumes "wf v" and "i < Size v"
  shows "Vector_index v i = elems v ! i"
proof -
  from assms(1) have "m_size v \<le> m_capacity (m_data v)"
    and "length (slots (m_data v)) = m_capacity (m_data v)"
    by (simp_all add: wf_def)
  then show ?thesis
    using assms(2) by (simp add: Vector_index_def RawMemory_index_def read_at_def elems_def Size_def)
qed

lemma wf_determined:
  "wf v \<Longrightarrow> elems v = map Some xs \<Longrightarrow> Capacity v = c \<Longrightarrow> v = vec_of xs c"
  using wf_is_vec_of(1) [of v] by (simp add: comp_def)

lemma slot_after_elems: "length xs < c \<Longrightarrow> slots (m_data (vec_of xs c)) ! length xs = None"
  by (simp add: slots_vec_of nth_append)

section \<open>Relocation and growth\<close>

lemma CopyOrMove_run:
  assumes "length mid = length xs" and "relocation_ok tr xs"
  shows "CopyOrMove tr (pre @ map Some xs @ post) (length pre) (length xs)
           (dpre @ mid @ dpost) (length dpre) =
         Returns (pre @ replicate (length xs) None @ post, dpre @ map Some xs @ dpost)"
proof (cases "nothrow_move_constructible tr \<or> \<not> copy_constructible tr")
  case True
  have d: "destroy_n (pre @ map Some (map (moved_from tr) xs) @ post) (length pre)
             (length (map (moved_from tr) xs)) =
           Some (pre @ replicate (length (map (moved_from tr) xs)) None @ post)"
    by (rule destroy_n_run)
  show ?thesis
    using True d uninitialized_move_n_run [OF assms(1), of tr pre post dpre dpost]
    by (simp add: CopyOrMove_def comp_def)
next
  case False
  then have "\<forall>x\<in>set xs. \<not> copy_throws tr x"
    using assms(2) by (simp add: relocation_ok_def copies_ok_def list_all_iff)
  then show ?thesis
    using False uninitialized_copy_n_run [OF assms(1), of tr pre post dpre dpost]
      destroy_n_run [of pre xs post]
    by (simp add: CopyOrMove_def)
qed

lemma CopyOrMove_all:
  assumes "length mid = length xs" and "relocation_ok tr xs"
  shows "CopyOrMove tr (map Some xs @ post) 0 (length xs) (mid @ dpost) 0 =
         Returns (replicate (length xs) None @ post, map Some xs @ dpost)"
  using CopyOrMove_run [OF assms, of "[]" post "[]" dpost] by simp


lemma relocation_ok_append:
  "relocation_ok tr (ys @ zs) \<Longrightarrow> relocation_ok tr ys \<and> relocation_ok tr zs"
  by (auto simp: relocation_ok_def copies_ok_def)






lemma Erase_vec_of:
  assumes len: "length (ys @ e # zs) \<le> c"
  shows "Erase tr (vec_of (ys @ e # zs) c) (length ys) = Some (vec_of (ys @ zs) c)"
proof -
  let ?post = "replicate (c - length (ys @ e # zs)) (None :: 'a option)"
  let ?m = "Some (last (e # map (moved_from tr) zs))"
  have sl: "slots (m_data (vec_of (ys @ e # zs) c)) = map Some ys @ Some e # map Some zs @ ?post"
    using slots_vec_of [OF len] by simp
  have mv: "move_loop tr (map Some ys @ Some e # map Some zs @ ?post)
              (Suc (length (map Some ys))) (length (map Some ys)) (length zs) =
            Some (map Some ys @ map Some zs @ ?m # ?post)"
    by (rule move_loop_run)
  have de: "destroy_at ((map Some ys @ map Some zs) @ ?m # ?post) (length (map Some ys @ map Some zs))
            = Some ((map Some ys @ map Some zs) @ None # ?post)"
    by (rule destroy_at_mid)
  have idx: "RawMemory_index (m_data (vec_of (ys @ e # zs) c)) (length ys + length zs) =
             Some (length ys + length zs)"
    using len by (simp add: RawMemory_index_def)
  have fin: "(vec_of (ys @ e # zs) c)\<lparr>m_data := with_slots (m_data (vec_of (ys @ e # zs) c))
                 (map Some ys @ map Some zs @ None # ?post),
               m_size := length ys + length zs\<rparr> = vec_of (ys @ zs) c"
    using len by (simp add: vec_of_def with_slots_def Suc_diff_le flip: replicate_Suc)
  show ?thesis
    using sl mv de idx fin by (simp add: Erase_def std_move_def)
qed

section \<open>Positional insertion\<close>

lemma Emplace_room_vec_of:
  assumes len: "length (ys @ ws @ [l]) < c"
    and ctor: "construct_T tr NoArgs = Inr (t, args')"
  shows "Emplace tr (vec_of (ys @ ws @ [l]) c) (length ys) NoArgs =
         Some (Returns (vec_of (ys @ t # ws @ [l]) c, args'))"
proof -
  let ?xs = "ys @ ws @ [l]"
  obtain k where c: "c = length ?xs + Suc k"
    using len by (auto intro: that [of "c - length ?xs - 1"])
  let ?post = "replicate k (None :: 'a option)"
  let ?pre = "map Some ys @ map Some ws"
  have sl: "slots (m_data (vec_of ?xs c)) = ?pre @ Some l # None # ?post"
    using slots_vec_of [of ?xs c] by (simp add: c)
  have sz: "m_size (vec_of ?xs c) = Suc (length ?pre)" by simp
  have rd: "read_at (?pre @ Some l # None # ?post) (length ?pre) = Some l"
    by (rule read_at_mid)
  have cons: "construct_at (?pre @ Some l # None # ?post) (Suc (length ?pre)) l =
              Some (?pre @ Some l # Some l # ?post)"
    using construct_at_mid [of "?pre @ [Some l]" None ?post l] by simp
  have upd: "(?pre @ Some l # Some l # ?post)[length ?pre := Some (moved_from tr l)] =
             map Some ys @ map Some ws @ Some (moved_from tr l) # Some l # ?post"
    using list_update_length [of ?pre "Some l" "Some l # ?post" "Some (moved_from tr l)"] by simp
  have mb: "move_backward_loop tr (map Some ys @ map Some ws @ Some (moved_from tr l) # Some l # ?post)
              (length (map Some ys) + length ws) (Suc (length (map Some ys) + length ws)) (length ws) =
            Some (map Some ys @ Some (hd (map (moved_from tr) ws @ [moved_from tr l])) # map Some ws @ Some l # ?post)"
    by (rule move_backward_loop_run)
  have asg: "assign_at (map Some ys @ Some (hd (map (moved_from tr) ws @ [moved_from tr l])) # map Some ws @ Some l # ?post)
               (length (map Some ys)) t =
             Some (map Some ys @ Some t # map Some ws @ Some l # ?post)"
    by (rule assign_at_mid)
  have idx: "RawMemory_index (m_data (vec_of ?xs c)) (length ys + length ws) = Some (length ys + length ws)"
    "RawMemory_index (m_data (vec_of ?xs c)) (length ys) = Some (length ys)"
    by (simp_all add: RawMemory_index_def c)
  have fin: "(vec_of ?xs c)\<lparr>m_data := with_slots (m_data (vec_of ?xs c))
                 (map Some ys @ Some t # map Some ws @ Some l # ?post),
               m_size := Suc (Suc (length ys + length ws))\<rparr> = vec_of (ys @ t # ws @ [l]) c"
    by (simp add: vec_of_def with_slots_def c)
  have ne: "m_size (vec_of ?xs c) \<noteq> Capacity (vec_of ?xs c)" "m_size (vec_of ?xs c) \<noteq> 0"
    using len by simp_all
  show ?thesis
    unfolding Emplace_def
    apply (simp only: ne if_False sl)
    using rd cons upd mb asg idx fin ctor
    apply (simp add: std_move_backward_def Let_def)
    done
qed

lemma Emplace_at_end_vec_of:
  assumes len: "length xs < c"
  shows "Emplace tr (vec_of xs c) (length xs) NoArgs = Some Undefined"
proof (cases "xs = []")
  case True
  then show ?thesis using len by (simp add: Emplace_def)
next
  case False
  then have "\<not> length xs \<le> length xs - 1" by (cases xs) simp_all
  then have "std_move_backward tr b (length xs) (length xs - 1) (length xs) = None" for b
    by (simp add: std_move_backward_def)
  then show ?thesis using len False
    by (simp add: Emplace_def Let_def split: option.splits)
qed

lemma Relocate_vec_of:
  assumes full: "length (ys @ zs) = c"
    and ctor: "construct_T tr NoArgs = Inr (t, args')"
    and reloc: "relocation_ok tr (ys @ zs)"
    and ft: "fits tr (if c = 0 then 1 else c * 2)"
  shows "Emplace tr (vec_of (ys @ zs) c) (length ys) NoArgs =
         Some (Returns (vec_of (ys @ t # zs) (if c = 0 then 1 else c * 2), args'))"
proof -
  let ?xs = "ys @ zs"
  define n where "n = (if c = 0 then 1 else c * 2)"
  then obtain k where n: "n = c + Suc k"
    by (cases "c = 0") (auto intro: that [of 0] that [of "c - 1"])
  have fn: "fits tr n" using ft by (simp add: n_def)
  note sln = slots_RawMemory_ctor [OF fn]
  have c: "c = length ys + length zs" using full by simp
  let ?post = "replicate k (None :: 'a option)"
  have rep: "replicate n (None :: 'a option) =
             replicate (length ys) None @ None # replicate (length zs) None @ ?post"
    unfolding n c replicate_add by (simp add: replicate_app_Cons_same)
  have sl: "slots (m_data (vec_of ?xs c)) = map Some ys @ map Some zs"
    using slots_vec_of [of ?xs c] full by simp
  have plus: "RawMemory_plus (RawMemory_ctor tr n) (length ys) = Some (length ys)"
    "RawMemory_plus (RawMemory_ctor tr n) (Suc (length ys)) = Some (Suc (length ys))"
    "RawMemory_plus (m_data (vec_of ?xs c)) (length ys) = Some (length ys)"
    by (simp_all add: RawMemory_plus_def n c)
  have cons: "construct_at (replicate n None) (length ys) t =
              Some (replicate (length ys) None @ Some t # replicate (length zs) None @ ?post)"
    using construct_at_mid [of "replicate (length ys) None" None "replicate (length zs) None @ ?post" t]
    by (simp add: rep)
  have r: "relocation_ok tr ys" "relocation_ok tr zs"
    using relocation_ok_append [OF reloc] by simp_all
  have cm1: "CopyOrMove tr (map Some ys @ map Some zs) 0 (length ys)
               (replicate (length ys) None @ Some t # replicate (length zs) None @ ?post) 0 =
             Returns (replicate (length ys) None @ map Some zs,
                      map Some ys @ Some t # replicate (length zs) None @ ?post)"
    using r(1) by (intro CopyOrMove_all) simp_all
  have cm2: "CopyOrMove tr (replicate (length ys) None @ map Some zs @ [])
               (length (replicate (length ys) (None :: 'a option))) (length zs)
               ((map Some ys @ [Some t]) @ replicate (length zs) None @ ?post)
               (length (map Some ys @ [Some t])) =
             Returns (replicate (length ys) None @ replicate (length zs) None @ [],
                      (map Some ys @ [Some t]) @ map Some zs @ ?post)"
    using r(2) by (intro CopyOrMove_run) simp_all
  have fin: "(vec_of ?xs c)\<lparr>m_data := with_slots (RawMemory_ctor tr n)
                 (map Some ys @ Some t # map Some zs @ ?post),
               m_size := Suc (length ys + length zs)\<rparr> = vec_of (ys @ t # zs) n"
    unfolding RawMemory_ctor_fits [OF fn] by (simp add: vec_of_def with_slots_def n c)
  have nn: "(if c = 0 then 1 else c * 2) = n" by (simp add: n_def)
  have eq: "m_size (vec_of ?xs c) = Capacity (vec_of ?xs c)" using full by simp
  have sz: "m_size (vec_of ?xs c) = c" using full by simp
  show ?thesis
    unfolding Emplace_def Relocate_def
    apply (simp only: ctor_args.case m_size_vec_of Capacity_vec_of full refl if_True nn Let_def)
    using ctor plus cons cm1 cm2 sl fin sln
    apply (simp add: c)
    done
qed

lemma Emplace_inserts:
  assumes w: "wf v" and ctor: "construct_T tr NoArgs = Inr (t, args')"
    and pos: "(Size v < Capacity v \<and> index < Size v) \<or>
              (Size v = Capacity v \<and> index \<le> Size v \<and> relocation_ok tr (contents v) \<and>
               fits tr (max 1 (Size v * 2)))"
  shows "\<exists>v'. Emplace tr v index NoArgs = Some (Returns (v', args')) \<and> wf v' \<and> Size v' = Size v + 1 \<and>
              Capacity v' = (if Size v = Capacity v then max 1 (Size v * 2) else Capacity v) \<and>
              elems v' = take index (elems v) @ Some t # drop index (elems v)"
proof -
  from w obtain xs c where v: "v = vec_of xs c" and len: "length xs \<le> c"
    and el: "elems v = map Some xs"
    by (rule wf_cases)
  define ys zs where "ys = take index xs" and "zs = drop index xs"
  have xs: "xs = ys @ zs" by (simp add: ys_def zs_def)
  have i: "index \<le> length xs" using pos by (auto simp: v)
  then have ly: "length ys = index" by (simp add: ys_def)
  have tk: "take index (elems v) @ Some t # drop index (elems v) = map Some (ys @ t # zs)"
    by (simp add: el ys_def zs_def take_map drop_map)
  from pos show ?thesis
  proof
    assume "Size v < Capacity v \<and> index < Size v"
    then have room: "length xs < c" and lt: "index < length xs" by (simp_all add: v)
    then have "zs \<noteq> []" by (simp add: zs_def)
    then obtain ws l where zs: "zs = ws @ [l]" by (cases zs rule: rev_cases) auto
    have "Emplace tr (vec_of (ys @ ws @ [l]) c) (length ys) NoArgs =
          Some (Returns (vec_of (ys @ t # ws @ [l]) c, args'))"
      using room ctor by (intro Emplace_room_vec_of) (simp add: xs zs)
    then have e: "Emplace tr v index NoArgs = Some (Returns (vec_of (ys @ t # zs) c, args'))"
      by (simp add: v xs zs ly)
    have l': "length (ys @ t # zs) \<le> c" using room by (simp add: xs)
    show ?thesis
      using e room wf_vec_of [OF l'] elems_vec_of [OF l'] unfolding tk
      by (simp add: v xs)
  next
    assume "Size v = Capacity v \<and> index \<le> Size v \<and> relocation_ok tr (contents v) \<and>
            fits tr (max 1 (Size v * 2))"
    then have full: "length (ys @ zs) = c" and r: "relocation_ok tr (ys @ zs)"
      and f: "fits tr (max 1 (c * 2))"
      using len by (auto simp: v contents_vec_of simp flip: xs)
    have f': "fits tr (if c = 0 then 1 else c * 2)"
      using f by (cases "c = 0") (simp_all add: max_def)
    have "Emplace tr (vec_of (ys @ zs) c) (length ys) NoArgs =
          Some (Returns (vec_of (ys @ t # zs) (if c = 0 then 1 else c * 2), args'))"
      using full ctor r f' by (rule Relocate_vec_of)
    then have e: "Emplace tr v index NoArgs =
                  Some (Returns (vec_of (ys @ t # zs) (if c = 0 then 1 else c * 2), args'))"
      by (simp add: v ly flip: xs)
    have l': "length (ys @ t # zs) \<le> (if c = 0 then 1 else c * 2)" using full by auto
    show ?thesis
      using e full wf_vec_of [OF l'] elems_vec_of [OF l'] unfolding tk
      by (auto simp: v xs)
  qed
qed

lemma Emplace_at_end_with_room:
  assumes "wf v" and "Size v < Capacity v"
  shows "Emplace tr v (Size v) NoArgs = Some Undefined"
proof -
  from assms(1) obtain xs c where v: "v = vec_of xs c" and len: "length xs \<le> c"
    by (rule wf_cases)
  from assms(2) have "length xs < c" by (simp add: v)
  then show ?thesis by (simp add: v Emplace_at_end_vec_of)
qed

section \<open>Copying\<close>

lemma Vector_copy_ctor_vec_of:
  assumes len: "length xs \<le> c" and ok: "\<forall>x\<in>set xs. \<not> copy_throws tr x"
    and ft: "fits tr (length xs)"
  shows "Vector_copy_ctor tr (vec_of xs c) = Returns (vec_of xs (length xs))"
proof -
  have "uninitialized_copy_n tr ([] @ map Some xs @ replicate (c - length xs) None) (length ([] :: 'a slot list))
          (length xs) ([] @ replicate (length xs) None @ []) (length ([] :: 'a slot list)) =
        Returns ([] @ map Some xs @ [])"
    using ok by (intro uninitialized_copy_n_run) simp_all
  then have u: "uninitialized_copy_n tr (map Some xs @ replicate (c - length xs) None) 0
          (length xs) (replicate (length xs) None) 0 = Returns (map Some xs)"
    by simp
  have w: "\<lparr>m_data = with_slots (RawMemory_ctor tr (length xs)) (map Some xs), m_size = length xs\<rparr> =
           vec_of xs (length xs)"
    using with_slots_ctor [OF ft order_refl] by simp
  show ?thesis
    by (simp add: Vector_copy_ctor_def Let_def slots_vec_of [OF len] slots_RawMemory_ctor [OF ft] u w)
qed

lemma Vector_copy_ctor_throws:
  assumes len: "length xs \<le> c" and bad: "\<exists>x\<in>set xs. copy_throws tr x"
    and ft: "fits tr (length xs)"
  shows "Vector_copy_ctor tr (vec_of xs c) = Throws ElementOperationError ()"
proof -
  from bad obtain ys t zs where xs: "xs = ys @ t # zs" and t: "copy_throws tr t"
    and ys: "\<forall>x\<in>set ys. \<not> copy_throws tr x"
    using split_list_first_prop [of xs "copy_throws tr"] by blast
  note th = uninitialized_copy_n_throws [where mid = "replicate (length ys + Suc (length zs)) None"
      and ys = ys and k = "length zs" and tr = tr and t = t and pre = "[]"
      and post = "map Some zs @ replicate (c - length xs) None" and dpre = "[]" and dpost = "[]"]
  have "\<exists>r. uninitialized_copy_n tr (slots (m_data (vec_of xs c))) 0 (length xs)
          (replicate (length xs) None) 0 = Throws ElementOperationError r"
    using th ys t slots_vec_of [OF len] by (simp add: xs)
  then show ?thesis
    by (auto simp: Vector_copy_ctor_def Let_def slots_RawMemory_ctor [OF ft])
qed

lemma std_swap_RawMemory_eq: "std_swap_RawMemory h a b = h(a := h b, b := h a)"
  by (auto simp: std_swap_RawMemory_def RawMemory_move_ctor_def RawMemory_move_assign_def
      Let_def fun_eq_iff)

lemma Vector_Swap_eq: "Vector_Swap h this other = h(this := h other, other := h this)"
  by (auto simp: Vector_Swap_def std_swap_RawMemory_eq Let_def fun_eq_iff)

lemma Vector_dtor_vec_of: "length xs \<le> c \<Longrightarrow> Vector_dtor (vec_of xs c) = Some []"
  using destroy_n_run [of "[]" xs "replicate (c - length xs) None"]
  by (simp add: Vector_dtor_def slots_vec_of)

lemma copy_assign_loop_run:
  assumes "length olds = length news" and "length spre = length done"
    and "length done + length news \<le> m_capacity rd" and "length done + length news \<le> m_capacity d"
    and "slots rd = spre @ map Some news @ spost"
    and "\<forall>x\<in>set news. \<not> copy_throws tr x"
  shows "copy_assign_loop tr rd d (done @ map Some olds @ post) (length done) (length news) =
         Returns (done @ map Some news @ post)"
  using assms
proof (induction news arbitrary: olds spre "done")
  case Nil
  then show ?case by simp
next
  case (Cons x news)
  then obtain y olds' where olds: "olds = y # olds'" "length olds' = length news"
    by (cases olds) auto
  have idx: "RawMemory_index rd (length done) = Some (length done)"
     "RawMemory_index d (length done) = Some (length done)"
    using Cons.prems by (simp_all add: RawMemory_index_def)
  have rd: "read_at (slots rd) (length done) = Some x"
    using Cons.prems read_at_mid [of spre "Some x" "map Some news @ spost"] by simp
  have asg: "assign_at (done @ Some y # map Some olds' @ post) (length done) x =
             Some (done @ Some x # map Some olds' @ post)"
    by (rule assign_at_mid)
  have ih: "copy_assign_loop tr rd d ((done @ [Some x]) @ map Some olds' @ post)
              (length (done @ [Some x])) (length news) =
            Returns ((done @ [Some x]) @ map Some news @ post)"
    using Cons.prems olds by (intro Cons.IH [where spre = "spre @ [Some x]"]) simp_all
  show ?case using idx rd asg ih Cons.prems by (simp add: olds)
qed

lemma copy_assign_in_place_vec_of:
  assumes lt: "length ts \<le> ct" and ls: "length ys \<le> cs" and fits: "length ys \<le> ct"
    and ok: "\<forall>x\<in>set ys. \<not> copy_throws tr x"
  shows "copy_assign_in_place tr (vec_of ts ct) (vec_of ys cs) = Returns (vec_of ys ct)"
proof -
  define m where "m = min (length ts) (length ys)"
  let ?v = "vec_of ts ct" and ?r = "vec_of ys cs"
  let ?keep = "map Some (take m ts)"
  let ?tail = "replicate (ct - length ts) (None :: 'a option)"
  have m: "m \<le> length ts" "m \<le> length ys" by (simp_all add: m_def)
  have slv: "slots (m_data ?v) = ?keep @ map Some (drop m ts) @ ?tail"
    using slots_vec_of [OF lt] by (simp flip: map_append)
  have slr: "slots (m_data ?r) = map Some (take m ys) @ map Some (drop m ys) @ replicate (cs - length ys) None"
    using slots_vec_of [OF ls] by (simp flip: map_append)
  \<comment> \<open>step 1\<close>
  define b1 where "b1 = ?keep @ replicate (length ts - m) None @ ?tail"
  have s1: "(if m_size ?v > m_size ?r
             then destroy_n (slots (m_data ?v)) (m_size ?r) (m_size ?v - m_size ?r)
             else Some (slots (m_data ?v))) =
            Some (if length ts > length ys then b1 else slots (m_data ?v))"
  proof (cases "length ts > length ys")
    case True
    then have my: "m = length ys" by (simp add: m_def)
    have "destroy_n (?keep @ map Some (drop m ts) @ ?tail) (length ?keep) (length (drop m ts)) =
          Some (?keep @ replicate (length (drop m ts)) None @ ?tail)"
      by (rule destroy_n_run)
    then show ?thesis using True slv m by (simp add: b1_def my min_absorb2)
  next
    case False
    then show ?thesis by simp
  qed
  \<comment> \<open>step 2\<close>
  define rest where "rest = (if length ts > length ys then replicate (length ts - m) None @ ?tail
                             else map Some (drop m ts) @ ?tail)"
  have b1': "(if length ts > length ys then b1 else slots (m_data ?v)) = [] @ ?keep @ rest"
    by (simp add: b1_def rest_def slv)
  have s2: "copy_assign_loop tr (m_data ?r) (m_data ?v) ([] @ ?keep @ rest)
              (length ([] :: 'a slot list)) (length (take m ys)) =
            Returns ([] @ map Some (take m ys) @ rest)"
    using m lt ls ok slr
    by (intro copy_assign_loop_run [where spre = "[]" and spost = "map Some (drop m ys) @ replicate (cs - length ys) None"])
      (auto dest: in_set_takeD)
  \<comment> \<open>step 3\<close>
  have s3: "(if m_size ?v < m_size ?r
             then uninitialized_copy_n tr (slots (m_data ?r)) (m_size ?v) (m_size ?r - m_size ?v)
                    (map Some (take m ys) @ rest) (m_size ?v)
             else Returns (map Some (take m ys) @ rest)) =
            Returns (map Some ys @ replicate (ct - length ys) None)"
  proof (cases "length ts < length ys")
    case True
    then have mt: "m = length ts" by (simp add: m_def)
    have r: "rest = replicate (length (drop m ys)) None @ replicate (ct - length ys) None"
      using True fits by (simp add: rest_def mt flip: replicate_add)
    have "uninitialized_copy_n tr (map Some (take m ys) @ map Some (drop m ys) @ replicate (cs - length ys) None)
            (length (map Some (take m ys))) (length (drop m ys))
            (map Some (take m ys) @ replicate (length (drop m ys)) None @ replicate (ct - length ys) None)
            (length (map Some (take m ys))) =
          Returns (map Some (take m ys) @ map Some (drop m ys) @ replicate (ct - length ys) None)"
      using ok by (intro uninitialized_copy_n_run) (auto dest: in_set_dropD)
    then show ?thesis using True slr r m by (simp add: mt min_absorb2 flip: map_append)
  next
    case False
    then have my: "m = length ys" by (simp add: m_def)
    have "rest = replicate (ct - length ys) None"
      using False lt by (cases "length ts = length ys") (simp_all add: rest_def my flip: replicate_add)
    then show ?thesis using False by (simp add: my)
  qed
  have fin: "?v\<lparr>m_data := with_slots (m_data ?v) (map Some ys @ replicate (ct - length ys) None),
               m_size := length ys\<rparr> = vec_of ys ct"
    using fits by (intro with_slots_vec_of) simp_all
  have mm: "min (m_size ?v) (m_size ?r) = length (take m ys)"
    using m by (simp add: m_def)
  show ?thesis
    unfolding copy_assign_in_place_def s1 b1' mm
    using s2 s3 fin by simp
qed

lemma copy_assign_in_place_size:
  "copy_assign_in_place tr v rhs = Throws e v' \<Longrightarrow> m_size v' = m_size v"
  by (auto simp: copy_assign_in_place_def split: option.splits outcome.splits if_splits)

lemma Vector_copy_assign_swap_branch:
  assumes ne: "this \<noteq> rhs" and t: "h this = vec_of ts ct" "length ts \<le> ct"
    and r: "h rhs = vec_of ys cs" "length ys \<le> cs" and big: "ct < length ys"
    and ft: "fits tr (length ys)"
  shows "copies_ok tr ys \<Longrightarrow>
           Vector_copy_assign tr h this rhs = Returns (h(this := vec_of ys (length ys)))"
    and "\<not> copies_ok tr ys \<Longrightarrow> Vector_copy_assign tr h this rhs = Throws ElementOperationError h"
proof -
  have br: "m_size (h rhs) > Capacity (h this)" using big by (simp add: t r)
  {
    assume "copies_ok tr ys"
    then have ok: "\<forall>x\<in>set ys. \<not> copy_throws tr x" by (simp add: copies_ok_def list_all_iff)
    have cc: "Vector_copy_ctor tr (h rhs) = Returns (vec_of ys (length ys))"
      unfolding r(1) using r(2) ok ft by (rule Vector_copy_ctor_vec_of)
    have dt: "Vector_dtor (h this) = Some []"
      unfolding t(1) using t(2) by (rule Vector_dtor_vec_of)
    have "(\<lambda>q. (case Some q of None \<Rightarrow> vec_of ys (length ys) | Some q \<Rightarrow> h q)) = h" by simp
    show "Vector_copy_assign tr h this rhs = Returns (h(this := vec_of ys (length ys)))"
      using ne br cc dt
      by (auto simp: Vector_copy_assign_def Vector_Swap_eq Let_def fun_eq_iff)
  }
  {
    assume "\<not> copies_ok tr ys"
    then have bad: "\<exists>x\<in>set ys. copy_throws tr x" by (simp add: copies_ok_def list_all_iff)
    have cc: "Vector_copy_ctor tr (h rhs) = Throws ElementOperationError ()"
      unfolding r(1) using r(2) bad ft by (rule Vector_copy_ctor_throws)
    show "Vector_copy_assign tr h this rhs = Throws ElementOperationError h"
      using ne br cc by (simp add: Vector_copy_assign_def)
  }
qed

lemma Vector_copy_assign_in_place_branch:
  assumes ne: "this \<noteq> rhs" and t: "h this = vec_of ts ct" "length ts \<le> ct"
    and r: "h rhs = vec_of ys cs" "length ys \<le> cs" and fits: "length ys \<le> ct"
  shows "copies_ok tr ys \<Longrightarrow> Vector_copy_assign tr h this rhs = Returns (h(this := vec_of ys ct))"
    and "Vector_copy_assign tr h this rhs = Throws e h' \<Longrightarrow>
         Size (h' this) = Size (h this) \<and> (\<forall>q. q \<noteq> this \<longrightarrow> h' q = h q)"
proof -
  have br: "\<not> m_size (h rhs) > Capacity (h this)" using fits by (simp add: t r)
  {
    assume "copies_ok tr ys"
    then have ok: "\<forall>x\<in>set ys. \<not> copy_throws tr x" by (simp add: copies_ok_def list_all_iff)
    have "copy_assign_in_place tr (h this) (h rhs) = Returns (vec_of ys ct)"
      unfolding t(1) r(1) using t(2) r(2) fits ok by (rule copy_assign_in_place_vec_of)
    then show "Vector_copy_assign tr h this rhs = Returns (h(this := vec_of ys ct))"
      using ne br by (simp add: Vector_copy_assign_def)
  }
  {
    assume "Vector_copy_assign tr h this rhs = Throws e h'"
    then obtain v' where "copy_assign_in_place tr (h this) (h rhs) = Throws e v'" and "h' = h(this := v')"
      using ne br by (auto simp: Vector_copy_assign_def split: outcome.splits)
    then show "Size (h' this) = Size (h this) \<and> (\<forall>q. q \<noteq> this \<longrightarrow> h' q = h q)"
      using copy_assign_in_place_size [of tr "h this" "h rhs" e v'] by (simp add: Size_def)
  }
qed

lemma Vector_copy_assign_self: "Vector_copy_assign tr h this this = Returns h"
  by (simp add: Vector_copy_assign_def)

section \<open>Moves\<close>

lemma RawMemory_move_assign_eq:
  "RawMemory_move_assign h this other = h(this := h other, other := h this)"
  by (auto simp: RawMemory_move_assign_def Let_def fun_eq_iff)

lemma RawMemory_Swap_eq: "RawMemory_Swap h this other = h(this := h other, other := h this)"
  by (auto simp: RawMemory_Swap_def Let_def fun_eq_iff)

lemma Vector_move_ctor_eq:
  "fst (Vector_move_ctor other) = other"
  "m_size (snd (Vector_move_ctor other)) = 0"
  "RawMemory_empty (m_data (snd (Vector_move_ctor other)))"
  by (simp_all add: Vector_move_ctor_def RawMemory_move_ctor_def RawMemory_empty_def)

lemma Vector_move_assign_distinct:
  "this \<noteq> rhs \<Longrightarrow>
   Vector_move_assign h this rhs =
     h(this := (h this)\<lparr>m_data := m_data (h rhs), m_size := m_size (h rhs)\<rparr>,
       rhs := (h rhs)\<lparr>m_data := m_data (h this), m_size := 0\<rparr>)"
  by (auto simp: Vector_move_assign_def RawMemory_move_assign_eq Let_def fun_eq_iff)

section \<open>PushBack and its capacities\<close>

lemma caller_view_simps [simp]:
  "caller_view x (Returns (v, a)) = Returns (v, referenced x a)"
  "caller_view x (Throws e (v, a)) = Throws e (v, referenced x a)"
  "caller_view x Undefined = Undefined"
  by (simp_all add: caller_view_def)




section \<open>The claims\<close>

subsection \<open>C1: Emplace and Insert at a position\<close>

text \<open>
  C1 says that \<^verbatim>\<open>Emplace\<close>/\<^verbatim>\<open>Insert\<close> inserts one element before every position in
  \<open>[0, size]\<close>, with and without spare capacity. For the empty pack, the lemma
  \<open>Emplace_inserts\<close> above shows this for every position when the vector is full and for
  the positions before the end when it has spare capacity. At the end position of a vector
  with spare capacity the source does not insert: on an empty vector
  \<^verbatim>\<open>data_[size_ - 1]\<close> fails the assertion of \<^verbatim>\<open>RawMemory::operator[]\<close>, and on a
  non-empty one \<^verbatim>\<open>std::move_backward\<close> is called on the range from
  \<^verbatim>\<open>begin() + size_\<close> to \<^verbatim>\<open>end() - 1\<close>, whose end lies before its start (lemma
  \<open>Emplace_at_end_with_room\<close>). The theorem evaluates \<^verbatim>\<open>Emplace(begin())\<close> on an
  empty vector of capacity 1 and \<^verbatim>\<open>Emplace(end())\<close> on \<open>[1, 2, 3]\<close> of capacity 4. Its
  last part is the second defect: with an argument, here the value 99, \<^verbatim>\<open>Emplace\<close> has
  no instantiation at all.
\<close>

theorem Emplace_at_end_undefined:
  "Emplace int_traits (vec_of [] 1) 0 NoArgs = Some Undefined \<and>
   Emplace int_traits (vec_of [1, 2, 3] 4) 3 NoArgs = Some Undefined \<and>
   Emplace int_traits (vec_of [1, 2, 3] 4) 3 (ConstRef 99) = None"
  using Emplace_at_end_vec_of [where xs = "[]" and c = 1 and tr = int_traits]
    Emplace_at_end_vec_of [where xs = "[1, 2, 3]" and c = 4 and tr = int_traits]
  by (simp add: numeral_3_eq_3 Emplace_def)

subsection \<open>C2: moving a storage manager\<close>

text \<open>
  C2, as stated: move assignment leaves the source empty (capacity 0, no handle). It does
  not when the target held a block: assigning the manager of capacity 3 to the manager of
  capacity 2 leaves the source with the target's former block of 2 slots.
\<close>

theorem RawMemory_move_assign_source_keeps_block:
  "\<not> RawMemory_empty (RawMemory_move_assign two_managers True False False)"
  by (simp add: RawMemory_move_assign_def RawMemory_empty_def two_managers_def
      RawMemory_ctor_def Allocate_def Let_def)

text \<open>
  C2, amended: move assignment exchanges region and capacity of target and source (for
  \<open>this = other\<close> the store stays as it is, which the same equation says); the source is
  empty afterwards exactly when the target was empty before. Move construction hands
  region and capacity to the new object and leaves the source empty.
\<close>

theorem RawMemory_move_exchanges:
  "RawMemory_move_assign h this other = h(this := h other, other := h this) \<and>
   RawMemory_empty (RawMemory_move_assign h this other other) = RawMemory_empty (h this) \<and>
   fst (RawMemory_move_ctor src) = src \<and>
   RawMemory_empty (snd (RawMemory_move_ctor src))"
  by (auto simp: RawMemory_move_assign_def RawMemory_move_ctor_def RawMemory_empty_def
      Let_def fun_eq_iff)

subsection \<open>C3: a throwing constructor in the growth branch of EmplaceBack\<close>

text \<open>
  C3: when the vector is full and the constructor of the new element throws, the call
  \<^verbatim>\<open>EmplaceBack\<close> (and \<^verbatim>\<open>PushBack(const T&)\<close>, whose constructor is the copy
  constructor) passes the exception on and leaves the vector exactly as it was, and with
  it its size, capacity and elements: the element is constructed in the new block before
  \<^verbatim>\<open>CopyOrMove\<close> touches the old one.
\<close>

theorem EmplaceBack_growth_ctor_throws:
  assumes "Size v = Capacity v" and "construct_T tr args = Inl e"
  shows "EmplaceBack tr v args = Throws e (v, args) \<and>
         (\<forall>x. args = ConstRef x \<longrightarrow> PushBack_const tr v x = Throws e (v, x))"
proof -
  have eb: "EmplaceBack tr v args = Throws e (v, args)"
    using assms by (simp add: EmplaceBack_def Size_def Let_def RawMemory_plus_def)
  then show ?thesis by (auto simp: PushBack_const_def caller_view_def)
qed

theorem EmplaceBack_growth_ctor_throws_witness:
  "Size (vec_of [1, 2 :: int] 2) = Capacity (vec_of [1, 2 :: int] 2) \<and>
   construct_T fussy_traits (ConstRef 13) = Inl ElementOperationError \<and>
   EmplaceBack fussy_traits (vec_of [1, 2] 2) (ConstRef 13) =
     Throws ElementOperationError (vec_of [1, 2] 2, ConstRef 13) \<and>
   PushBack_const fussy_traits (vec_of [1, 2] 2) 13 =
     Throws ElementOperationError (vec_of [1, 2] 2, 13)"
proof -
  have s: "Size (vec_of [1, 2 :: int] 2) = Capacity (vec_of [1, 2 :: int] 2)" by simp
  have c: "construct_T fussy_traits (ConstRef 13) = Inl ElementOperationError"
    by (simp add: fussy_traits_def)
  show ?thesis using s c EmplaceBack_growth_ctor_throws [OF s c] by simp
qed

subsection \<open>C4: the capacities of repeated PushBack\<close>



subsection \<open>C5: copy assignment\<close>

text \<open>
  C5: for well-formed target and source, when no element of the source throws on being
  copied, copy assignment returns, the target then holds the source's elements and size,
  every other object, the source among them, is unchanged, and the capacity is the
  source's size if that exceeded the target's capacity (the copy-and-swap branch, whose
  copy is allocated with exactly that capacity) and the old capacity otherwise. When the
  source's size exceeds the target's capacity and a copy throws, the exception leaves the
  whole store unchanged. In the other branch an exception leaves the target with its old
  size (the size is set last) and every other object unchanged. The condition
  \<open>fits tr (Capacity (h rhs))\<close> says of the source what holds of every vector in memory:
  the byte count of its block does not wrap. The witness holds the scenario of the
  5-element source and the 2-element target of capacity 2, and one throwing run for each
  branch.
\<close>

theorem Vector_copy_assign_policies:
  assumes "wf (h this)" and "wf (h rhs)" and "fits tr (Capacity (h rhs))"
  shows "(copies_ok tr (contents (h rhs)) \<longrightarrow>
            (\<exists>h'. Vector_copy_assign tr h this rhs = Returns h' \<and> wf (h' this) \<and>
                   elems (h' this) = elems (h rhs) \<and> Size (h' this) = Size (h rhs) \<and>
                   Capacity (h' this) =
                     (if Capacity (h this) < Size (h rhs) then Size (h rhs) else Capacity (h this)) \<and>
                   (\<forall>q. q \<noteq> this \<longrightarrow> h' q = h q))) \<and>
         (Capacity (h this) < Size (h rhs) \<and> \<not> copies_ok tr (contents (h rhs)) \<longrightarrow>
            Vector_copy_assign tr h this rhs = Throws ElementOperationError h) \<and>
         (Size (h rhs) \<le> Capacity (h this) \<longrightarrow>
            (\<forall>e h'. Vector_copy_assign tr h this rhs = Throws e h' \<longrightarrow>
                    Size (h' this) = Size (h this) \<and> (\<forall>q. q \<noteq> this \<longrightarrow> h' q = h q)))"
proof -
  from assms(1) obtain ts ct where t: "h this = vec_of ts ct" and lt: "length ts \<le> ct"
    by (rule wf_cases)
  from assms(2) obtain ys cs where r: "h rhs = vec_of ys cs" and lr: "length ys \<le> cs"
    by (rule wf_cases)
  have co: "contents (vec_of ys cs) = ys" by (simp add: contents_vec_of [OF lr])
  have el: "elems (vec_of ys cs) = map Some ys" by (simp add: elems_vec_of [OF lr])
  show ?thesis
  proof (cases "this = rhs")
    case True
    then have "Vector_copy_assign tr h this rhs = Returns h" by (simp add: Vector_copy_assign_self)
    moreover have "\<not> Capacity (h this) < Size (h rhs)" using True lr by (simp add: r)
    ultimately show ?thesis using True assms(1) by simp
  next
    case ne: False
    show ?thesis
  proof (cases "ct < length ys")
    case True
    have "fits tr (length ys)" using assms(3) lr by (auto simp: r intro: fits_mono)
    note sw = Vector_copy_assign_swap_branch [OF ne t lt r lr True this]
    have w: "wf (vec_of ys (length ys))" "elems (vec_of ys (length ys)) = map Some ys"
      by (simp_all add: wf_vec_of elems_vec_of)
    show ?thesis using True sw w by (auto simp: co el t r)
  next
    case False
    then have room: "length ys \<le> ct" by simp
    note ip = Vector_copy_assign_in_place_branch [OF ne t lt r lr room, of tr]
    have w: "wf (vec_of ys ct)" "elems (vec_of ys ct) = map Some ys"
      using room by (simp_all add: wf_vec_of elems_vec_of)
    have a: "copies_ok tr (contents (h rhs)) \<longrightarrow>
            (\<exists>h'. Vector_copy_assign tr h this rhs = Returns h' \<and> wf (h' this) \<and>
                   elems (h' this) = elems (h rhs) \<and> Size (h' this) = Size (h rhs) \<and>
                   Capacity (h' this) =
                     (if Capacity (h this) < Size (h rhs) then Size (h rhs) else Capacity (h this)) \<and>
                   (\<forall>q. q \<noteq> this \<longrightarrow> h' q = h q))"
      using False ip(1) w by (auto simp: co el t r)
    have b: "\<not> (Capacity (h this) < Size (h rhs))" using False by (simp add: t r)
    have c: "\<forall>e h'. Vector_copy_assign tr h this rhs = Throws e h' \<longrightarrow>
                    Size (h' this) = Size (h this) \<and> (\<forall>q. q \<noteq> this \<longrightarrow> h' q = h q)"
      using ip(2) by blast
    show ?thesis using a b c by blast
  qed
  qed
qed

theorem Vector_copy_assign_policies_witness:
  "wf (small_and_large True) \<and> wf (small_and_large False) \<and>
   fits int_traits (Capacity (small_and_large False)) \<and>
   copies_ok int_traits (contents (small_and_large False)) \<and>
   Capacity (small_and_large True) < Size (small_and_large False) \<and>
   (\<exists>h'. Vector_copy_assign int_traits small_and_large True False = Returns h' \<and>
         h' True = vec_of [5, 6, 7, 8, 9] 5 \<and> h' False = vec_of [5, 6, 7, 8, 9] 5) \<and>
   wf (small_and_unlucky True) \<and> wf (small_and_unlucky False) \<and>
   fits fussy_traits (Capacity (small_and_unlucky False)) \<and>
   Capacity (small_and_unlucky True) < Size (small_and_unlucky False) \<and>
   \<not> copies_ok fussy_traits (contents (small_and_unlucky False)) \<and>
   Vector_copy_assign fussy_traits small_and_unlucky True False =
     Throws ElementOperationError small_and_unlucky \<and>
   wf (roomy_and_unlucky True) \<and> wf (roomy_and_unlucky False) \<and>
   fits fussy_traits (Capacity (roomy_and_unlucky False)) \<and>
   Size (roomy_and_unlucky False) \<le> Capacity (roomy_and_unlucky True) \<and>
   (\<exists>h'. Vector_copy_assign fussy_traits roomy_and_unlucky True False =
           Throws ElementOperationError h' \<and>
         Size (h' True) = 3 \<and> h' False = vec_of [5, 13] 2)"
proof -
  have w1: "wf (small_and_large True)" "wf (small_and_large False)"
    by (simp_all add: small_and_large_def wf_vec_of)
  have f1: "fits int_traits (Capacity (small_and_large False))"
    by (simp add: small_and_large_def fits_def int_traits_def)
  have f2: "fits fussy_traits (Capacity (small_and_unlucky False))"
    by (simp add: small_and_unlucky_def fits_def fussy_traits_def)
  have f3': "fits fussy_traits (Capacity (roomy_and_unlucky False))"
    by (simp add: roomy_and_unlucky_def fits_def fussy_traits_def)
  have c1: "copies_ok int_traits (contents (small_and_large False))"
    by (simp add: small_and_large_def contents_vec_of copies_ok_def int_traits_def)
  have b1: "Capacity (small_and_large True) < Size (small_and_large False)"
    by (simp add: small_and_large_def)
  have e1: "elems (small_and_large False) = map Some [5, 6, 7, 8, 9]"
    by (simp add: small_and_large_def elems_vec_of)
  have r1: "\<exists>h'. Vector_copy_assign int_traits small_and_large True False = Returns h' \<and>
         h' True = vec_of [5, 6, 7, 8, 9] 5 \<and> h' False = vec_of [5, 6, 7, 8, 9] 5"
  proof -
    note th = Vector_copy_assign_policies [where h = small_and_large and this = True and rhs = False
        and tr = int_traits, OF w1 f1, THEN conjunct1, THEN mp, OF c1]
    then obtain h' where all:
      "Vector_copy_assign int_traits small_and_large True False = Returns h' \<and>
       wf (h' True) \<and> elems (h' True) = elems (small_and_large False) \<and>
       Size (h' True) = Size (small_and_large False) \<and>
       Capacity (h' True) =
         (if Capacity (small_and_large True) < Size (small_and_large False)
          then Size (small_and_large False) else Capacity (small_and_large True)) \<and>
       (\<forall>q. q \<noteq> True \<longrightarrow> h' q = small_and_large q)" ..
    then have h': "Vector_copy_assign int_traits small_and_large True False = Returns h'"
      "wf (h' True)" "elems (h' True) = elems (small_and_large False)"
      "Capacity (h' True) = Size (small_and_large False)"
      using b1 by simp_all
    from all have "\<forall>q. q \<noteq> True \<longrightarrow> h' q = small_and_large q" by (elim conjE)
    then have hF: "h' False = small_and_large False" by (elim allE [of _ False]) simp
    have "h' True = vec_of [5, 6, 7, 8, 9] 5"
      using h'(2) by (rule wf_determined) (simp_all add: h' e1, simp add: small_and_large_def)
    then show ?thesis using h' hF by (simp add: small_and_large_def)
  qed
  have w2: "wf (small_and_unlucky True)" "wf (small_and_unlucky False)"
    by (simp_all add: small_and_unlucky_def wf_vec_of)
  have b2: "Capacity (small_and_unlucky True) < Size (small_and_unlucky False)"
    by (simp add: small_and_unlucky_def)
  have c2: "\<not> copies_ok fussy_traits (contents (small_and_unlucky False))"
    by (simp add: small_and_unlucky_def contents_vec_of copies_ok_def fussy_traits_def)
  have r2: "Vector_copy_assign fussy_traits small_and_unlucky True False =
     Throws ElementOperationError small_and_unlucky"
    using Vector_copy_assign_policies [where h = small_and_unlucky and this = True and rhs = False
        and tr = fussy_traits, OF w2 f2, THEN conjunct2, THEN conjunct1] b2 c2
    by simp
  have w3: "wf (roomy_and_unlucky True)" "wf (roomy_and_unlucky False)"
    by (simp_all add: roomy_and_unlucky_def wf_vec_of)
  have b3: "Size (roomy_and_unlucky False) \<le> Capacity (roomy_and_unlucky True)"
    by (simp add: roomy_and_unlucky_def)
  have ev: "Vector_copy_assign fussy_traits roomy_and_unlucky True False =
            Throws ElementOperationError
              (roomy_and_unlucky(True :=
                 \<lparr>m_data = \<lparr>m_buffer = Some [Some 5, Some 2, None, None], m_capacity = 4\<rparr>,
                  m_size = 3\<rparr>))"
    by (simp add: Vector_copy_assign_def copy_assign_in_place_def roomy_and_unlucky_def
        vec_of_def slots_def with_slots_def Capacity_def destroy_at_def RawMemory_index_def
        read_at_def assign_at_def fussy_traits_def numeral_2_eq_2 numeral_3_eq_3)
  let ?h = "roomy_and_unlucky(True :=
                 \<lparr>m_data = \<lparr>m_buffer = Some [Some 5, Some 2, None, None], m_capacity = 4\<rparr>,
                  m_size = 3\<rparr>)"
  note th3 = Vector_copy_assign_policies [where h = roomy_and_unlucky and this = True and rhs = False
        and tr = fussy_traits, OF w3 f3', THEN conjunct2, THEN conjunct2,
      THEN mp, OF b3, THEN spec, THEN spec, THEN mp, OF ev]
  then have "Size (?h True) = Size (roomy_and_unlucky True)" by (rule conjunct1)
  then have s3: "Size (?h True) = 3" by (simp add: roomy_and_unlucky_def)
  have f3: "?h False = vec_of [5, 13] 2" by (simp add: roomy_and_unlucky_def)
  have r3: "\<exists>h'. Vector_copy_assign fussy_traits roomy_and_unlucky True False =
           Throws ElementOperationError h' \<and>
         Size (h' True) = 3 \<and> h' False = vec_of [5, 13] 2"
    using ev s3 f3 by (intro exI [of _ ?h] conjI)
  show ?thesis by (intro conjI w1 f1 c1 b1 r1 w2 f2 b2 c2 r2 w3 f3' b3 r3)
qed

subsection \<open>C6: move assignment of vectors\<close>

text \<open>
  C6 says that move assignment discards what the target owned. The code does not: by
  \<open>Vector_move_assign_distinct\<close> the target's block passes to the source with its
  elements still constructed, and the source's size is set to 0, so that nothing destroys
  them any more. The theorem evaluates the assignment of \<open>[7]\<close> to \<open>[1, 2]\<close>: the target
  receives \<open>[7]\<close>; the source has size 0 and a block holding 1 and 2, which violates the
  invariant, and its destructor releases the block with both elements alive.
\<close>

theorem Vector_move_assign_leaks:
  "Vector_move_assign two_vectors True False True = vec_of [7] 1 \<and>
   m_size (Vector_move_assign two_vectors True False False) = 0 \<and>
   slots (m_data (Vector_move_assign two_vectors True False False)) = [Some 1, Some 2] \<and>
   Vector_dtor (Vector_move_assign two_vectors True False False) = Some [1, 2] \<and>
   \<not> wf (Vector_move_assign two_vectors True False False)"
  by (simp add: Vector_move_assign_distinct two_vectors_def vec_of_def slots_def Vector_dtor_def wf_def)

subsection \<open>C7: Erase\<close>

text \<open>
  C7: for a well-formed vector and a position below its size, \<^verbatim>\<open>Erase\<close> returns; the
  elements before the position stay, those after it move one slot to the left in their
  order, the size decreases by one, the capacity stays, and the slot that was the last one
  is raw afterwards. The witness erases index 1 of \<open>[10, 20, 30]\<close>.
\<close>

theorem Erase_removes_one:
  assumes "wf v" and "index < Size v"
  shows "\<exists>v'. Erase tr v index = Some v' \<and> wf v' \<and> Size v' = Size v - 1 \<and>
              Capacity v' = Capacity v \<and>
              elems v' = take index (elems v) @ drop (Suc index) (elems v) \<and>
              slots (m_data v') ! (Size v - 1) = None"
proof -
  from assms(1) obtain xs c where v: "v = vec_of xs c" and len: "length xs \<le> c"
    and el: "elems v = map Some xs"
    by (rule wf_cases)
  from assms(2) have i: "index < length xs" by (simp add: v)
  define ys e zs where "ys = take index xs" and "e = xs ! index" and "zs = drop (Suc index) xs"
  have xs: "xs = ys @ e # zs" and ly: "length ys = index"
    using i by (simp_all add: ys_def e_def zs_def id_take_nth_drop [symmetric])
  have len': "length (ys @ zs) \<le> c" "length (ys @ zs) < c" using len by (simp_all add: xs)
  have "Erase tr (vec_of (ys @ e # zs) c) (length ys) = Some (vec_of (ys @ zs) c)"
    using len by (intro Erase_vec_of) (simp add: xs)
  then have er: "Erase tr v index = Some (vec_of (ys @ zs) c)"
    by (simp add: v xs ly)
  have "slots (m_data (vec_of (ys @ zs) c)) ! (Size v - 1) = None"
    using slot_after_elems [OF len'(2)] by (simp add: v xs)
  moreover have "elems (vec_of (ys @ zs) c) = take index (elems v) @ drop (Suc index) (elems v)"
    using elems_vec_of [OF len'(1)] by (simp add: el ys_def zs_def take_map drop_map)
  moreover have "Size (vec_of (ys @ zs) c) = Size v - 1" by (simp add: v xs)
  ultimately show ?thesis
    using er wf_vec_of [OF len'(1)] by (simp add: v)
qed

theorem Erase_removes_one_witness:
  "wf (vec_of [10, 20, 30 :: int] 3) \<and> 1 < Size (vec_of [10, 20, 30 :: int] 3) \<and>
   map_option elems (Erase int_traits (vec_of [10, 20, 30] 3) 1) = Some [Some 10, Some 30] \<and>
   map_option Size (Erase int_traits (vec_of [10, 20, 30] 3) 1) = Some 2"
proof -
  have w: "wf (vec_of [10, 20, 30 :: int] 3)" by (simp add: wf_vec_of)
  have i: "1 < Size (vec_of [10, 20, 30 :: int] 3)" by simp
  show ?thesis
    using w i Erase_removes_one [OF w i, of int_traits]
    by (auto simp: elems_vec_of)
qed

subsection \<open>C8: the sized constructor\<close>




subsection \<open>C9: Resize\<close>




subsection \<open>C10: the two Insert overloads\<close>

text \<open>
  C10 says that \<^verbatim>\<open>Insert(pos, T&&)\<close> and \<^verbatim>\<open>Insert(pos, const T&)\<close> both insert a copy
  of their argument and give the same array. Both bodies are \<^verbatim>\<open>return Emplace(pos, value);\<close>
  and so instantiate \<^verbatim>\<open>Emplace\<close> for a pack of one argument, whose first branch is
  ill-formed: neither overload has an instantiation, for any vector, position and value,
  and no array results. This is the second defect named under C1.
\<close>

theorem Insert_not_instantiable:
  "Insert_rvalue tr v pos x = None \<and> Insert_const tr v pos x = None"
  by (simp add: Insert_rvalue_def Insert_const_def Emplace_def)

end
